theory Spec2Isabelle
  imports Main "HOL-Library.Word" "HOL-Library.Sublist"
begin

section \<open>The Lua binding layer of UEVR (lua-api/Main.cpp)\<close>

text \<open>
  The file embeds \<^verbatim>\<open>src/lua-api/Main.cpp\<close>: the class \<^verbatim>\<open>ScriptContext\<close> (constructor,
  destructor, \<^verbatim>\<open>add_callback\<close>, the eight static forwarding functions, the two
  binding set-up methods), the module entry point \<^verbatim>\<open>luaopen_LuaVR\<close> and the two
  \<^verbatim>\<open>__index\<close> functions of the matrix usertypes.

  What the C++ does to its surroundings is written as traces in an explicit state:
  the calls made to the host's function table, the lines written to \<^verbatim>\<open>std::cout\<close>, and
  the calls made to Lua functions. The Windows loader, the Lua functions and sol2's
  error hook are not code of the repository; they are the fields of an \<open>environment\<close>.
  A Lua function called by a forwarding function may itself call the registration
  methods the module offers (the mutex is recursive); the model lets it.
\<close>

subsection \<open>Machine types\<close>

type_synonym address = "64 word"
type_synonym float32 = "32 word"
type_synonym float64 = "64 word"
type_synonym cint = "32 word"

subsection \<open>The matrix usertypes\<close>

text \<open>
  \<^verbatim>\<open>UEVR_Matrix4x4f\<close> and \<^verbatim>\<open>UEVR_Matrix4x4d\<close> hold \<^verbatim>\<open>m[4][4]\<close>: a list of rows.
  The index function receives a \<^verbatim>\<open>sol::object\<close> and asks it two things only,
  \<^verbatim>\<open>is<int>()\<close> and \<^verbatim>\<open>as<int>()\<close>. An object is therefore modelled by what these two
  answer: \<open>Int_object i\<close> is any Lua value for which \<^verbatim>\<open>is<int>()\<close> holds and
  \<^verbatim>\<open>as<int>()\<close> is the 32-bit \<^verbatim>\<open>int\<close> \<open>i\<close>; \<open>Other_object t\<close> is a value of Lua type \<open>t\<close>
  for which \<^verbatim>\<open>is<int>()\<close> is false.
\<close>

type_synonym UEVR_Matrix4x4f = "float32 list list"
type_synonym UEVR_Matrix4x4d = "float64 list list"

datatype lua_type =
  Type_nil | Type_boolean | Type_number | Type_string | Type_table
  | Type_function | Type_userdata | Type_lightuserdata | Type_thread

datatype sol_object = Int_object cint | Other_object lua_type

fun is_int :: "sol_object \<Rightarrow> bool" where
  "is_int (Int_object i) = True"
| "is_int (Other_object t) = False"

text \<open>\<open>as_int\<close> is only ever called behind \<open>is_int\<close>; its second equation is never reached.\<close>

fun as_int :: "sol_object \<Rightarrow> cint" where
  "as_int (Int_object i) = i"
| "as_int (Other_object t) = 0"

text \<open>
  The function returns either \<^verbatim>\<open>sol::lua_nil\<close> or the pointer \<^verbatim>\<open>&lhs.m[index]\<close>, written
  \<open>Row_pointer index\<close> with the signed value of \<^verbatim>\<open>index\<close>. The pointer designates a row of
  the matrix exactly when \<open>row_in_bounds index\<close>.
\<close>

datatype index_result = Lua_nil | Row_pointer int

definition row_in_bounds :: "int \<Rightarrow> bool" where
  "row_in_bounds i = (0 \<le> i \<and> i < 4)"

definition Matrix4x4f_index :: "UEVR_Matrix4x4f \<Rightarrow> sol_object \<Rightarrow> index_result" where
  "Matrix4x4f_index lhs index_obj =
     (if \<not> is_int index_obj then Lua_nil
      else let index = as_int index_obj in
        if 4 \<le> sint index then Lua_nil
        else Row_pointer (sint index))"

definition Matrix4x4d_index :: "UEVR_Matrix4x4d \<Rightarrow> sol_object \<Rightarrow> index_result" where
  "Matrix4x4d_index lhs index_obj =
     (if \<not> is_int index_obj then Lua_nil
      else let index = as_int index_obj in
        if 4 \<le> sint index then Lua_nil
        else Row_pointer (sint index))"

subsection \<open>The host and the script runtime, as the relay sees them\<close>

text \<open>
  The eight events of \<^verbatim>\<open>UEVR_SDKCallbacks\<close>. For the event \<open>e\<close> the host's table holds a
  registration function \<^verbatim>\<open>cbs->on_e\<close>, the class holds a static forwarding function
  \<^verbatim>\<open>ScriptContext::on_e\<close> (its address is \<open>Trampoline e\<close>) and a vector
  \<^verbatim>\<open>m_on_e_callbacks\<close>, and the usertype offers scripts a method \<^verbatim>\<open>on_e\<close>.
\<close>

datatype event =
  Pre_engine_tick | Post_engine_tick
  | Pre_slate_draw_window_render_thread | Post_slate_draw_window_render_thread
  | Pre_calculate_stereo_view_offset | Post_calculate_stereo_view_offset
  | Pre_viewport_client_draw | Post_viewport_client_draw

datatype fn_ptr = Trampoline event

text \<open>
  A call into the host: \<open>Add_callback e cb\<close> is \<^verbatim>\<open>cbs->on_e(cb)\<close>, \<open>Remove_callback cb\<close> is
  \<^verbatim>\<open>functions->remove_callback(cb)\<close>.
\<close>

datatype host_call = Add_callback event fn_ptr | Remove_callback fn_ptr

text \<open>
  A \<^verbatim>\<open>sol::protected_function\<close> is a reference to a Lua function. The values handed to
  it are the forwarding function's own parameters.
\<close>

type_synonym protected_function = nat

datatype lua_argument =
  Arg_handle address | Arg_float float32 | Arg_int cint | Arg_bool bool
  | Arg_vector3f address | Arg_rotatorf address

type_synonym invocation = "protected_function \<times> lua_argument list"

text \<open>
  Calling a protected function either returns a \<^verbatim>\<open>protected_function_result\<close> (valid, or
  invalid with the Lua error message) or leaves by a C++ exception. The \<^verbatim>\<open>catch\<close> clauses
  tell two kinds of exception apart: one derived from \<^verbatim>\<open>std::exception\<close>, with its
  \<^verbatim>\<open>what()\<close>, and anything else, of which the code can read nothing. \<open>Moved_from_result\<close>
  is a result object after \<^verbatim>\<open>std::move\<close> has emptied it.
\<close>

datatype cxx_exception = Std_exception string | Other_exception

datatype protected_function_result = Valid_result | Invalid_result string | Moved_from_result

datatype call_outcome = Returns protected_function_result | Throws cxx_exception

text \<open>
  What the code calls and the repository does not define:
  \<^item> the Windows loader (\<^verbatim>\<open>GetModuleHandleA\<close>, \<^verbatim>\<open>GetProcAddress\<close>; \<open>None\<close> is \<^verbatim>\<open>nullptr\<close>);
  \<^item> the Lua functions. What a call does may depend on every call made before it. A
    call gives the registrations the function makes while it runs (its own calls of the
    methods of \<^verbatim>\<open>UEVR_SDKCallbacks\<close>, in order), and how it ends;
  \<^item> sol2's \<^verbatim>\<open>script_default_on_error\<close>, given the message of an invalid result
    (\<open>Some e\<close>: it throws \<open>e\<close>, as sol2 does unless configured otherwise; \<open>None\<close>: it returns);
  \<^item> what an invalidated vector iterator yields when it is dereferenced (\<open>dangling\<close>, given
    the calls made so far and the iterator's position): C++ leaves it open.
\<close>

record environment =
  GetModuleHandleA :: "string \<Rightarrow> address option"
  GetProcAddress :: "address \<Rightarrow> string \<Rightarrow> address option"
  call_function :: "invocation list \<Rightarrow> protected_function \<Rightarrow> lua_argument list
                      \<Rightarrow> (event \<times> protected_function) list \<times> call_outcome"
  script_default_on_error :: "string \<Rightarrow> cxx_exception option"
  dangling :: "invocation list \<Rightarrow> nat \<Rightarrow> protected_function"

subsection \<open>The class ScriptContext\<close>

text \<open>
  The data members, in the order of the source. \<^verbatim>\<open>m_lua\<close> is a view of the Lua state,
  which lives in the \<open>world\<close> below; \<^verbatim>\<open>m_mtx\<close> is not modelled: the model runs one call
  at a time, which is what holding the lock enforces.
\<close>

record ScriptContext =
  m_callbacks_to_remove :: "fn_ptr list"
  m_plugin_initialize_param :: "address option"
  m_on_pre_engine_tick_callbacks :: "protected_function list"
  m_on_post_engine_tick_callbacks :: "protected_function list"
  m_on_pre_slate_draw_window_render_thread_callbacks :: "protected_function list"
  m_on_post_slate_draw_window_render_thread_callbacks :: "protected_function list"
  m_on_pre_calculate_stereo_view_offset_callbacks :: "protected_function list"
  m_on_post_calculate_stereo_view_offset_callbacks :: "protected_function list"
  m_on_pre_viewport_client_draw_callbacks :: "protected_function list"
  m_on_post_viewport_client_draw_callbacks :: "protected_function list"

text \<open>
  The state the code acts on: the object the global \<^verbatim>\<open>script_context\<close> points to (the
  forwarding functions reach the context through this pointer), the names registered in
  the Lua state, and four traces: the calls made to the host, the lines written to
  \<^verbatim>\<open>std::cout\<close>, the calls made to Lua functions, and the calls of the methods of
  \<^verbatim>\<open>UEVR_SDKCallbacks\<close> that scripts made (from the top level of a script or from inside
  a function being called by a forwarding function).
\<close>

record world =
  script_context :: ScriptContext
  lua_functions :: "string list"
  lua_usertypes :: "string list"
  host_calls :: "host_call list"
  cout :: "string list"
  lua_calls :: "invocation list"
  method_calls :: "(event \<times> protected_function) list"

definition ScriptContext_constructor :: "environment \<Rightarrow> ScriptContext" where
  "ScriptContext_constructor env =
     (let this = \<lparr> m_callbacks_to_remove = [],
                    m_plugin_initialize_param = None,
                    m_on_pre_engine_tick_callbacks = [],
                    m_on_post_engine_tick_callbacks = [],
                    m_on_pre_slate_draw_window_render_thread_callbacks = [],
                    m_on_post_slate_draw_window_render_thread_callbacks = [],
                    m_on_pre_calculate_stereo_view_offset_callbacks = [],
                    m_on_post_calculate_stereo_view_offset_callbacks = [],
                    m_on_pre_viewport_client_draw_callbacks = [],
                    m_on_post_viewport_client_draw_callbacks = [] \<rparr>
      in case GetModuleHandleA env ''UEVRBackend.dll'' of
           None \<Rightarrow> this
         | Some unreal_vr_backend \<Rightarrow>
             this\<lparr> m_plugin_initialize_param :=
                     GetProcAddress env unreal_vr_backend ''g_plugin_initialize_param'' \<rparr>)"

definition ScriptContext_destructor :: "world \<Rightarrow> world" where
  "ScriptContext_destructor w =
     (if m_plugin_initialize_param (script_context w) \<noteq> None
      then w\<lparr> host_calls :=
                 host_calls w @ map Remove_callback (m_callbacks_to_remove (script_context w)),
               script_context := (script_context w)\<lparr> m_callbacks_to_remove := [] \<rparr> \<rparr>
      else w)"

definition valid :: "ScriptContext \<Rightarrow> bool" where
  "valid this = (m_plugin_initialize_param this \<noteq> None)"

definition log :: "string \<Rightarrow> world \<Rightarrow> world" where
  "log message w = w\<lparr> cout := cout w @ [''[LuaVR] '' @ message] \<rparr>"

definition handle_protected_result ::
  "environment \<Rightarrow> protected_function_result \<Rightarrow> cxx_exception + protected_function_result" where
  "handle_protected_result env result =
     (case result of
        Valid_result \<Rightarrow> Inr result
      | Invalid_result message \<Rightarrow>
          (case script_default_on_error env message of
             Some e \<Rightarrow> Inl e
           | None \<Rightarrow> Inr Moved_from_result)
      | Moved_from_result \<Rightarrow> Inr Moved_from_result)"

definition add_callback :: "(fn_ptr \<Rightarrow> host_call) \<Rightarrow> fn_ptr \<Rightarrow> world \<Rightarrow> world" where
  "add_callback adder cb w =
     (if m_plugin_initialize_param (script_context w) \<noteq> None
      then w\<lparr> host_calls := host_calls w @ [adder cb],
               script_context := (script_context w)\<lparr> m_callbacks_to_remove :=
                                    m_callbacks_to_remove (script_context w) @ [cb] \<rparr> \<rparr>
      else w)"

subsection \<open>The registration methods\<close>

text \<open>
  The eight methods of the usertype \<^verbatim>\<open>UEVR_SDKCallbacks\<close>, bound by
  \<open>setup_callback_bindings\<close> below: each lambda appends the script's function to its event's
  vector.
\<close>

fun UEVR_SDKCallbacks_method :: "event \<Rightarrow> protected_function \<Rightarrow> ScriptContext \<Rightarrow> ScriptContext" where
  "UEVR_SDKCallbacks_method Pre_engine_tick fn c =
     c\<lparr> m_on_pre_engine_tick_callbacks := m_on_pre_engine_tick_callbacks c @ [fn] \<rparr>"
| "UEVR_SDKCallbacks_method Post_engine_tick fn c =
     c\<lparr> m_on_post_engine_tick_callbacks := m_on_post_engine_tick_callbacks c @ [fn] \<rparr>"
| "UEVR_SDKCallbacks_method Pre_slate_draw_window_render_thread fn c =
     c\<lparr> m_on_pre_slate_draw_window_render_thread_callbacks :=
          m_on_pre_slate_draw_window_render_thread_callbacks c @ [fn] \<rparr>"
| "UEVR_SDKCallbacks_method Post_slate_draw_window_render_thread fn c =
     c\<lparr> m_on_post_slate_draw_window_render_thread_callbacks :=
          m_on_post_slate_draw_window_render_thread_callbacks c @ [fn] \<rparr>"
| "UEVR_SDKCallbacks_method Pre_calculate_stereo_view_offset fn c =
     c\<lparr> m_on_pre_calculate_stereo_view_offset_callbacks :=
          m_on_pre_calculate_stereo_view_offset_callbacks c @ [fn] \<rparr>"
| "UEVR_SDKCallbacks_method Post_calculate_stereo_view_offset fn c =
     c\<lparr> m_on_post_calculate_stereo_view_offset_callbacks :=
          m_on_post_calculate_stereo_view_offset_callbacks c @ [fn] \<rparr>"
| "UEVR_SDKCallbacks_method Pre_viewport_client_draw fn c =
     c\<lparr> m_on_pre_viewport_client_draw_callbacks :=
          m_on_pre_viewport_client_draw_callbacks c @ [fn] \<rparr>"
| "UEVR_SDKCallbacks_method Post_viewport_client_draw fn c =
     c\<lparr> m_on_post_viewport_client_draw_callbacks :=
          m_on_post_viewport_client_draw_callbacks c @ [fn] \<rparr>"

text \<open>The vector of an event: its slot's handler list.\<close>

fun callbacks_of :: "event \<Rightarrow> ScriptContext \<Rightarrow> protected_function list" where
  "callbacks_of Pre_engine_tick c = m_on_pre_engine_tick_callbacks c"
| "callbacks_of Post_engine_tick c = m_on_post_engine_tick_callbacks c"
| "callbacks_of Pre_slate_draw_window_render_thread c =
     m_on_pre_slate_draw_window_render_thread_callbacks c"
| "callbacks_of Post_slate_draw_window_render_thread c =
     m_on_post_slate_draw_window_render_thread_callbacks c"
| "callbacks_of Pre_calculate_stereo_view_offset c =
     m_on_pre_calculate_stereo_view_offset_callbacks c"
| "callbacks_of Post_calculate_stereo_view_offset c =
     m_on_post_calculate_stereo_view_offset_callbacks c"
| "callbacks_of Pre_viewport_client_draw c = m_on_pre_viewport_client_draw_callbacks c"
| "callbacks_of Post_viewport_client_draw c = m_on_post_viewport_client_draw_callbacks c"

text \<open>
  A script calling the method of event \<open>ev\<close> with \<open>fn\<close>. A script reaches the methods only
  through the usertype, so where the usertype was never registered the call fails inside
  Lua and nothing changes. Otherwise the lambda runs (the call is recorded in
  \<open>method_calls\<close>). The mutex is recursive, so this may happen while a forwarding function
  on the same thread is in its loop.
\<close>

definition script_registers :: "event \<Rightarrow> protected_function \<Rightarrow> world \<Rightarrow> world" where
  "script_registers ev fn w =
     (if ''UEVR_SDKCallbacks'' \<in> set (lua_usertypes w)
      then w\<lparr> script_context := UEVR_SDKCallbacks_method ev fn (script_context w),
               method_calls := method_calls w @ [(ev, fn)] \<rparr>
      else w)"

fun script_registers_all :: "(event \<times> protected_function) list \<Rightarrow> world \<Rightarrow> world" where
  "script_registers_all [] w = w"
| "script_registers_all ((ev, fn) # rs) w = script_registers_all rs (script_registers ev fn w)"

subsection \<open>The forwarding functions\<close>

text \<open>
  The eight static functions share one body: a range-based \<^verbatim>\<open>for\<close> over the event's vector
  whose statement is a \<^verbatim>\<open>try\<close> block.

  \<open>forward\<close> is the block: the call of \<open>fn\<close> (recorded in \<open>lua_calls\<close>), during which the Lua
  function makes its registrations, then \<open>handle_protected_result\<close> on what the call
  returned. \<open>try_catch\<close> is the pair of handlers. A \<^verbatim>\<open>try\<close> statement may itself end by an
  exception, so it returns a sum, and the loop stops at an \<open>Inl\<close>.
\<close>

definition forward ::
  "environment \<Rightarrow> protected_function \<Rightarrow> lua_argument list \<Rightarrow> world
     \<Rightarrow> (cxx_exception + unit) \<times> world" where
  "forward env fn args w =
     (case call_function env (lua_calls w) fn args of
        (registrations, outcome) \<Rightarrow>
          (let w' = script_registers_all registrations
                      (w\<lparr> lua_calls := lua_calls w @ [(fn, args)] \<rparr>)
           in case outcome of
                Throws e \<Rightarrow> (Inl e, w')
              | Returns result \<Rightarrow>
                  (case handle_protected_result env result of
                     Inl e \<Rightarrow> (Inl e, w')
                   | Inr r \<Rightarrow> (Inr (), w'))))"

fun try_catch :: "string \<Rightarrow> (cxx_exception + unit) \<times> world \<Rightarrow> cxx_exception + world" where
  "try_catch name (Inr u, w) = Inr w"
| "try_catch name (Inl (Std_exception what), w) =
     Inr (log (''Exception in '' @ name @ '': '' @ what) w)"
| "try_catch name (Inl Other_exception, w) =
     Inr (log (''Unknown exception in '' @ name) w)"

text \<open>
  The loop takes the vector's \<^verbatim>\<open>begin()\<close> and \<^verbatim>\<open>end()\<close> once, so it makes as many passes as
  the vector had elements when the loop began: \<open>visited\<close> are the elements the iterator has
  passed, \<open>x # rest\<close> those still ahead, as they stood at that moment. Each pass
  dereferences the iterator into the live vector of event \<open>ev\<close>. As long as nothing has been
  appended to this vector since the loop began, that is the element \<open>x\<close>. Once a called
  function has appended to it (\<^verbatim>\<open>push_back\<close>, which may reallocate), the loop's iterators are
  invalid, and what the pass reads is what the environment's \<open>dangling\<close> says.
\<close>

fun for_each_callback ::
  "environment \<Rightarrow> event \<Rightarrow> string \<Rightarrow> lua_argument list
     \<Rightarrow> protected_function list \<Rightarrow> protected_function list \<Rightarrow> world
     \<Rightarrow> cxx_exception + world" where
  "for_each_callback env ev name args visited [] w = Inr w"
| "for_each_callback env ev name args visited (x # rest) w =
     (let fn = (if callbacks_of ev (script_context w) = visited @ x # rest then x
                else dangling env (lua_calls w) (length visited))
      in case try_catch name (forward env fn args w) of
           Inl e \<Rightarrow> Inl e
         | Inr w' \<Rightarrow> for_each_callback env ev name args (visited @ [x]) rest w')"

definition on_pre_engine_tick ::
  "environment \<Rightarrow> address \<Rightarrow> float32 \<Rightarrow> world
     \<Rightarrow> cxx_exception + world" where
  "on_pre_engine_tick env engine delta_seconds w =
     for_each_callback env Pre_engine_tick ''on_pre_engine_tick''
       [Arg_handle engine, Arg_float delta_seconds]
       [] (m_on_pre_engine_tick_callbacks (script_context w)) w"

definition on_post_engine_tick ::
  "environment \<Rightarrow> address \<Rightarrow> float32 \<Rightarrow> world
     \<Rightarrow> cxx_exception + world" where
  "on_post_engine_tick env engine delta_seconds w =
     for_each_callback env Post_engine_tick ''on_post_engine_tick''
       [Arg_handle engine, Arg_float delta_seconds]
       [] (m_on_post_engine_tick_callbacks (script_context w)) w"

definition on_pre_slate_draw_window_render_thread ::
  "environment \<Rightarrow> address \<Rightarrow> address \<Rightarrow> world
     \<Rightarrow> cxx_exception + world" where
  "on_pre_slate_draw_window_render_thread env renderer viewport_info w =
     for_each_callback env Pre_slate_draw_window_render_thread ''on_pre_slate_draw_window_render_thread''
       [Arg_handle renderer, Arg_handle viewport_info]
       [] (m_on_pre_slate_draw_window_render_thread_callbacks (script_context w)) w"

definition on_post_slate_draw_window_render_thread ::
  "environment \<Rightarrow> address \<Rightarrow> address \<Rightarrow> world
     \<Rightarrow> cxx_exception + world" where
  "on_post_slate_draw_window_render_thread env renderer viewport_info w =
     for_each_callback env Post_slate_draw_window_render_thread ''on_post_slate_draw_window_render_thread''
       [Arg_handle renderer, Arg_handle viewport_info]
       [] (m_on_post_slate_draw_window_render_thread_callbacks (script_context w)) w"

definition on_pre_calculate_stereo_view_offset ::
  "environment \<Rightarrow> address \<Rightarrow> cint \<Rightarrow> float32 \<Rightarrow> address \<Rightarrow> address \<Rightarrow> bool \<Rightarrow> world
     \<Rightarrow> cxx_exception + world" where
  "on_pre_calculate_stereo_view_offset env device view_index world_to_meters position rotation
       is_double w =
     for_each_callback env Pre_calculate_stereo_view_offset ''on_pre_calculate_stereo_view_offset''
       [Arg_handle device, Arg_int view_index, Arg_float world_to_meters,
        Arg_vector3f position, Arg_rotatorf rotation, Arg_bool is_double]
       [] (m_on_pre_calculate_stereo_view_offset_callbacks (script_context w)) w"

definition on_post_calculate_stereo_view_offset ::
  "environment \<Rightarrow> address \<Rightarrow> cint \<Rightarrow> float32 \<Rightarrow> address \<Rightarrow> address \<Rightarrow> bool \<Rightarrow> world
     \<Rightarrow> cxx_exception + world" where
  "on_post_calculate_stereo_view_offset env device view_index world_to_meters position rotation
       is_double w =
     for_each_callback env Post_calculate_stereo_view_offset ''on_post_calculate_stereo_view_offset''
       [Arg_handle device, Arg_int view_index, Arg_float world_to_meters,
        Arg_vector3f position, Arg_rotatorf rotation, Arg_bool is_double]
       [] (m_on_post_calculate_stereo_view_offset_callbacks (script_context w)) w"

definition on_pre_viewport_client_draw ::
  "environment \<Rightarrow> address \<Rightarrow> address \<Rightarrow> address \<Rightarrow> world
     \<Rightarrow> cxx_exception + world" where
  "on_pre_viewport_client_draw env viewport_client viewport canvas w =
     for_each_callback env Pre_viewport_client_draw ''on_pre_viewport_client_draw''
       [Arg_handle viewport_client, Arg_handle viewport, Arg_handle canvas]
       [] (m_on_pre_viewport_client_draw_callbacks (script_context w)) w"

definition on_post_viewport_client_draw ::
  "environment \<Rightarrow> address \<Rightarrow> address \<Rightarrow> address \<Rightarrow> world
     \<Rightarrow> cxx_exception + world" where
  "on_post_viewport_client_draw env viewport_client viewport canvas w =
     for_each_callback env Post_viewport_client_draw ''on_post_viewport_client_draw''
       [Arg_handle viewport_client, Arg_handle viewport, Arg_handle canvas]
       [] (m_on_post_viewport_client_draw_callbacks (script_context w)) w"

subsection \<open>Binding set-up and the module entry point\<close>

text \<open>
  \<open>setup_callback_bindings\<close> begins by reading \<^verbatim>\<open>m_plugin_initialize_param->sdk->callbacks\<close>:
  with a null \<^verbatim>\<open>m_plugin_initialize_param\<close> that is a null dereference. The host's table
  itself is taken to be well formed (\<^verbatim>\<open>sdk\<close>, \<^verbatim>\<open>callbacks\<close> and \<^verbatim>\<open>functions\<close> are not null).
\<close>

datatype failure = Null_dereference

definition set_function :: "string \<Rightarrow> world \<Rightarrow> world" where
  "set_function name w = w\<lparr> lua_functions := lua_functions w @ [name] \<rparr>"

definition new_usertype :: "string \<Rightarrow> world \<Rightarrow> world" where
  "new_usertype name w = w\<lparr> lua_usertypes := lua_usertypes w @ [name] \<rparr>"

definition setup_callback_bindings :: "world \<Rightarrow> failure + world" where
  "setup_callback_bindings w =
     (case m_plugin_initialize_param (script_context w) of
        None \<Rightarrow> Inl Null_dereference
      | Some param \<Rightarrow>
          (let w = add_callback (Add_callback Pre_engine_tick) (Trampoline Pre_engine_tick) w;
               w = add_callback (Add_callback Post_engine_tick) (Trampoline Post_engine_tick) w;
               w = add_callback (Add_callback Pre_slate_draw_window_render_thread)
                     (Trampoline Pre_slate_draw_window_render_thread) w;
               w = add_callback (Add_callback Post_slate_draw_window_render_thread)
                     (Trampoline Post_slate_draw_window_render_thread) w;
               w = add_callback (Add_callback Pre_calculate_stereo_view_offset)
                     (Trampoline Pre_calculate_stereo_view_offset) w;
               w = add_callback (Add_callback Post_calculate_stereo_view_offset)
                     (Trampoline Post_calculate_stereo_view_offset) w;
               w = add_callback (Add_callback Pre_viewport_client_draw)
                     (Trampoline Pre_viewport_client_draw) w;
               w = add_callback (Add_callback Post_viewport_client_draw)
                     (Trampoline Post_viewport_client_draw) w
           in Inr (new_usertype ''UEVR_SDKCallbacks'' w)))"

text \<open>
  \<open>setup_bindings\<close> registers one global function and the usertypes (of which only the
  names are kept: their members are plain field and method bindings), calls
  \<open>setup_callback_bindings\<close>, and returns what \<^verbatim>\<open>out.push\<close> returns for the one table pushed.
\<close>

definition setup_bindings :: "world \<Rightarrow> failure + (int \<times> world)" where
  "setup_bindings w =
     (let w = set_function ''test_function'' w;
          w = new_usertype ''UEVR_PluginInitializeParam'' w;
          w = new_usertype ''UEVR_PluginVersion'' w;
          w = new_usertype ''UEVR_PluginFunctions'' w;
          w = new_usertype ''UEVR_RendererData'' w;
          w = new_usertype ''UEVR_SDKFunctions'' w;
          w = new_usertype ''UEVR_SDKData'' w;
          w = new_usertype ''UEVR_VRData'' w;
          w = new_usertype ''UEVR_Vector2f'' w;
          w = new_usertype ''UEVR_Vector3f'' w;
          w = new_usertype ''UEVR_Vector3d'' w;
          w = new_usertype ''UEVR_Vector4f'' w;
          w = new_usertype ''UEVR_Quaternionf'' w;
          w = new_usertype ''UEVR_Rotatorf'' w;
          w = new_usertype ''UEVR_Rotatord'' w;
          w = new_usertype ''UEVR_Matrix4x4f'' w;
          w = new_usertype ''UEVR_Matrix4x4d'' w
      in case setup_callback_bindings w of
           Inl f \<Rightarrow> Inl f
         | Inr w \<Rightarrow> Inr (1, w))"

text \<open>The three messages of the entry point, as the bytes of their UTF-8 text.\<close>

definition initializing_message :: string where
  "initializing_message = map char_of
     [230, 173, 163, 229, 156, 168, 229, 136, 157, 229, 167, 139, 229, 140, 150, 32,
      76, 117, 97, 86, 82, 46, 46, 46 :: nat]"

definition initialization_failed_message :: string where
  "initialization_failed_message = map char_of
     [76, 117, 97, 86, 82, 32, 229, 136, 157, 229, 167, 139, 229, 140, 150, 229, 164, 177,
      232, 180, 165, 239, 188, 129, 231, 161, 174, 228, 191, 157, 229, 133, 136, 230, 179,
      168, 229, 133, 165, 32, 86, 82, 239, 188, 129 :: nat]"

definition initialized_message :: string where
  "initialized_message = map char_of
     [76, 117, 97, 86, 82, 32, 229, 136, 157, 229, 167, 139, 229, 140, 150, 239, 188, 129 :: nat]"

text \<open>
  \<open>luaopen_LuaVR\<close>, run in a process whose \<^verbatim>\<open>script_context\<close> is still empty: it logs,
  constructs the context, and either gives up (returning 0, with nothing bound in Lua)
  or sets the bindings up. (\<^verbatim>\<open>luaL_checkversion\<close> compares Lua versions and touches none
  of the state modelled here.)
\<close>

definition luaopen_LuaVR :: "environment \<Rightarrow> failure + (int \<times> world)" where
  "luaopen_LuaVR env =
     (let w = log initializing_message
                \<lparr> script_context = ScriptContext_constructor env,
                  lua_functions = [], lua_usertypes = [],
                  host_calls = [], cout = [], lua_calls = [], method_calls = [] \<rparr>
      in if \<not> valid (script_context w)
         then Inr (0, log initialization_failed_message w)
         else setup_bindings (log initialized_message w))"

subsection \<open>What happens to a relay between set-up and teardown\<close>

text \<open>
  The host calls a forwarding function through the pointer it was given, with the
  event's native arguments.
\<close>

datatype native_call =
  Call_pre_engine_tick address float32
  | Call_post_engine_tick address float32
  | Call_pre_slate_draw_window_render_thread address address
  | Call_post_slate_draw_window_render_thread address address
  | Call_pre_calculate_stereo_view_offset address cint float32 address address bool
  | Call_post_calculate_stereo_view_offset address cint float32 address address bool
  | Call_pre_viewport_client_draw address address address
  | Call_post_viewport_client_draw address address address

fun invoke :: "environment \<Rightarrow> native_call \<Rightarrow> world \<Rightarrow> cxx_exception + world" where
  "invoke env (Call_pre_engine_tick engine delta_seconds) w =
     on_pre_engine_tick env engine delta_seconds w"
| "invoke env (Call_post_engine_tick engine delta_seconds) w =
     on_post_engine_tick env engine delta_seconds w"
| "invoke env (Call_pre_slate_draw_window_render_thread renderer viewport_info) w =
     on_pre_slate_draw_window_render_thread env renderer viewport_info w"
| "invoke env (Call_post_slate_draw_window_render_thread renderer viewport_info) w =
     on_post_slate_draw_window_render_thread env renderer viewport_info w"
| "invoke env (Call_pre_calculate_stereo_view_offset device view_index world_to_meters
                 position rotation is_double) w =
     on_pre_calculate_stereo_view_offset env device view_index world_to_meters
       position rotation is_double w"
| "invoke env (Call_post_calculate_stereo_view_offset device view_index world_to_meters
                 position rotation is_double) w =
     on_post_calculate_stereo_view_offset env device view_index world_to_meters
       position rotation is_double w"
| "invoke env (Call_pre_viewport_client_draw viewport_client viewport canvas) w =
     on_pre_viewport_client_draw env viewport_client viewport canvas w"
| "invoke env (Call_post_viewport_client_draw viewport_client viewport canvas) w =
     on_post_viewport_client_draw env viewport_client viewport canvas w"

text \<open>
  Between \<open>luaopen_LuaVR\<close> and the destructor two things happen to the context: a script
  calls a method of \<^verbatim>\<open>UEVR_SDKCallbacks\<close> with a function, and the host fires an event
  (in the course of which the functions called may make registrations of their own).
\<close>

datatype operation = Script_calls event protected_function | Host_fires native_call

fun step :: "environment \<Rightarrow> operation \<Rightarrow> world \<Rightarrow> cxx_exception + world" where
  "step env (Script_calls ev fn) w = Inr (script_registers ev fn w)"
| "step env (Host_fires nc) w = invoke env nc w"

fun run :: "environment \<Rightarrow> operation list \<Rightarrow> world \<Rightarrow> cxx_exception + world" where
  "run env [] w = Inr w"
| "run env (x # xs) w = (case step env x w of Inl e \<Rightarrow> Inl e | Inr w' \<Rightarrow> run env xs w')"

subsection \<open>Vocabulary of the theorems\<close>

text \<open>The event a native call belongs to, and the arguments the host supplied with it.\<close>

fun event_of :: "native_call \<Rightarrow> event" where
  "event_of (Call_pre_engine_tick a b) = Pre_engine_tick"
| "event_of (Call_post_engine_tick a b) = Post_engine_tick"
| "event_of (Call_pre_slate_draw_window_render_thread a b) = Pre_slate_draw_window_render_thread"
| "event_of (Call_post_slate_draw_window_render_thread a b) = Post_slate_draw_window_render_thread"
| "event_of (Call_pre_calculate_stereo_view_offset a b c d e f) = Pre_calculate_stereo_view_offset"
| "event_of (Call_post_calculate_stereo_view_offset a b c d e f) = Post_calculate_stereo_view_offset"
| "event_of (Call_pre_viewport_client_draw a b c) = Pre_viewport_client_draw"
| "event_of (Call_post_viewport_client_draw a b c) = Post_viewport_client_draw"

fun arguments_of :: "native_call \<Rightarrow> lua_argument list" where
  "arguments_of (Call_pre_engine_tick a b) = [Arg_handle a, Arg_float b]"
| "arguments_of (Call_post_engine_tick a b) = [Arg_handle a, Arg_float b]"
| "arguments_of (Call_pre_slate_draw_window_render_thread a b) = [Arg_handle a, Arg_handle b]"
| "arguments_of (Call_post_slate_draw_window_render_thread a b) = [Arg_handle a, Arg_handle b]"
| "arguments_of (Call_pre_calculate_stereo_view_offset a b c d e f) =
     [Arg_handle a, Arg_int b, Arg_float c, Arg_vector3f d, Arg_rotatorf e, Arg_bool f]"
| "arguments_of (Call_post_calculate_stereo_view_offset a b c d e f) =
     [Arg_handle a, Arg_int b, Arg_float c, Arg_vector3f d, Arg_rotatorf e, Arg_bool f]"
| "arguments_of (Call_pre_viewport_client_draw a b c) = [Arg_handle a, Arg_handle b, Arg_handle c]"
| "arguments_of (Call_post_viewport_client_draw a b c) = [Arg_handle a, Arg_handle b, Arg_handle c]"

text \<open>The name of an event's slot: the name of its forwarding function.\<close>

fun slot_name :: "event \<Rightarrow> string" where
  "slot_name Pre_engine_tick = ''on_pre_engine_tick''"
| "slot_name Post_engine_tick = ''on_post_engine_tick''"
| "slot_name Pre_slate_draw_window_render_thread = ''on_pre_slate_draw_window_render_thread''"
| "slot_name Post_slate_draw_window_render_thread = ''on_post_slate_draw_window_render_thread''"
| "slot_name Pre_calculate_stereo_view_offset = ''on_pre_calculate_stereo_view_offset''"
| "slot_name Post_calculate_stereo_view_offset = ''on_post_calculate_stereo_view_offset''"
| "slot_name Pre_viewport_client_draw = ''on_pre_viewport_client_draw''"
| "slot_name Post_viewport_client_draw = ''on_post_viewport_client_draw''"

text \<open>
  The addresses handed to the host's registration functions and to its removal
  function, read off a trace of host calls, in the order of the calls.
\<close>

fun added_callbacks :: "host_call list \<Rightarrow> fn_ptr list" where
  "added_callbacks [] = []"
| "added_callbacks (Add_callback ev cb # cs) = cb # added_callbacks cs"
| "added_callbacks (Remove_callback cb # cs) = added_callbacks cs"

fun removed_callbacks :: "host_call list \<Rightarrow> fn_ptr list" where
  "removed_callbacks [] = []"
| "removed_callbacks (Add_callback ev cb # cs) = removed_callbacks cs"
| "removed_callbacks (Remove_callback cb # cs) = cb # removed_callbacks cs"

text \<open>
  The eight forwarding functions, and the eight registration calls of
  \<open>setup_callback_bindings\<close>, in the order of the source.
\<close>

definition trampolines :: "fn_ptr list" where
  "trampolines =
     [Trampoline Pre_engine_tick, Trampoline Post_engine_tick,
      Trampoline Pre_slate_draw_window_render_thread,
      Trampoline Post_slate_draw_window_render_thread,
      Trampoline Pre_calculate_stereo_view_offset,
      Trampoline Post_calculate_stereo_view_offset,
      Trampoline Pre_viewport_client_draw, Trampoline Post_viewport_client_draw]"

definition trampoline_registrations :: "host_call list" where
  "trampoline_registrations =
     [Add_callback Pre_engine_tick (Trampoline Pre_engine_tick),
      Add_callback Post_engine_tick (Trampoline Post_engine_tick),
      Add_callback Pre_slate_draw_window_render_thread
        (Trampoline Pre_slate_draw_window_render_thread),
      Add_callback Post_slate_draw_window_render_thread
        (Trampoline Post_slate_draw_window_render_thread),
      Add_callback Pre_calculate_stereo_view_offset
        (Trampoline Pre_calculate_stereo_view_offset),
      Add_callback Post_calculate_stereo_view_offset
        (Trampoline Post_calculate_stereo_view_offset),
      Add_callback Pre_viewport_client_draw (Trampoline Pre_viewport_client_draw),
      Add_callback Post_viewport_client_draw (Trampoline Post_viewport_client_draw)]"

text \<open>
  The functions passed to the method of event \<open>ev\<close>, in the order of the calls: in a trace
  of method calls (\<open>passed_to\<close>), and by the script calls of a sequence of operations
  (\<open>registered\<close>; these are the calls made from the top level of a script).
\<close>

fun passed_to :: "event \<Rightarrow> (event \<times> protected_function) list \<Rightarrow> protected_function list" where
  "passed_to ev [] = []"
| "passed_to ev ((ev', fn) # cs) = (if ev' = ev then fn # passed_to ev cs else passed_to ev cs)"

fun registered :: "event \<Rightarrow> operation list \<Rightarrow> protected_function list" where
  "registered ev [] = []"
| "registered ev (Script_calls ev' fn # xs) =
     (if ev' = ev then fn # registered ev xs else registered ev xs)"
| "registered ev (Host_fires nc # xs) = registered ev xs"

text \<open>
  No Lua function ever registers a function for event \<open>ev\<close> while it is being called: the
  vector of \<open>ev\<close> is then never appended to during a firing.
\<close>

definition registers_nothing_to :: "environment \<Rightarrow> event \<Rightarrow> bool" where
  "registers_nothing_to env ev =
     (\<forall>tr fn args. passed_to ev (fst (call_function env tr fn args)) = [])"

text \<open>
  The exception, if any, with which the \<^verbatim>\<open>try\<close> block of a forwarding function ends for
  a given outcome of the call; and the line the handlers write for an exception.
\<close>

fun raised :: "environment \<Rightarrow> call_outcome \<Rightarrow> cxx_exception option" where
  "raised env (Throws e) = Some e"
| "raised env (Returns Valid_result) = None"
| "raised env (Returns (Invalid_result message)) = script_default_on_error env message"
| "raised env (Returns Moved_from_result) = None"

fun diagnostic :: "string \<Rightarrow> cxx_exception \<Rightarrow> string" where
  "diagnostic name (Std_exception what) = ''[LuaVR] Exception in '' @ name @ '': '' @ what"
| "diagnostic name Other_exception = ''[LuaVR] Unknown exception in '' @ name"

text \<open>
  The lines one firing is expected to write, given the calls made before it: one line
  for each function whose \<^verbatim>\<open>try\<close> block ends by an exception.
\<close>

fun expected_lines ::
  "environment \<Rightarrow> string \<Rightarrow> lua_argument list \<Rightarrow> invocation list \<Rightarrow> protected_function list
     \<Rightarrow> string list" where
  "expected_lines env name args tr [] = []"
| "expected_lines env name args tr (fn # fns) =
     (case raised env (snd (call_function env tr fn args)) of
        None \<Rightarrow> []
      | Some e \<Rightarrow> [diagnostic name e])
     @ expected_lines env name args (tr @ [(fn, args)]) fns"

subsection \<open>Concrete inputs\<close>

text \<open>
  A process with the backend loaded, in which function 1 fails with the Lua error
  \<^verbatim>\<open>boom\<close>, function 2 throws something that is no \<^verbatim>\<open>std::exception\<close>, every other
  function returns, no function registers anything, and sol2's hook throws a \<^verbatim>\<open>sol::error\<close>
  carrying the message; and the same process without the backend.
\<close>

definition example_environment :: environment where
  "example_environment =
     \<lparr> GetModuleHandleA = (\<lambda>name. if name = ''UEVRBackend.dll'' then Some 0x180000000 else None),
       GetProcAddress =
         (\<lambda>h symbol. if symbol = ''g_plugin_initialize_param'' then Some 0x180004000 else None),
       call_function =
         (\<lambda>tr fn args. if fn = 1 then ([], Returns (Invalid_result ''boom''))
                        else if fn = 2 then ([], Throws Other_exception)
                        else ([], Returns Valid_result)),
       script_default_on_error =
         (\<lambda>message. Some (Std_exception (''sol: runtime error: '' @ message))),
       dangling = (\<lambda>tr i. 0) \<rparr>"

definition example_environment_without_host :: environment where
  "example_environment_without_host =
     example_environment\<lparr> GetModuleHandleA := (\<lambda>name. None) \<rparr>"

text \<open>What \<open>luaopen_LuaVR\<close> leaves behind in \<open>example_environment\<close>.\<close>

definition example_opened :: world where
  "example_opened =
     \<lparr> script_context =
         \<lparr> m_callbacks_to_remove =
             [Trampoline Pre_engine_tick, Trampoline Post_engine_tick,
              Trampoline Pre_slate_draw_window_render_thread,
              Trampoline Post_slate_draw_window_render_thread,
              Trampoline Pre_calculate_stereo_view_offset,
              Trampoline Post_calculate_stereo_view_offset,
              Trampoline Pre_viewport_client_draw, Trampoline Post_viewport_client_draw],
           m_plugin_initialize_param = Some 0x180004000,
           m_on_pre_engine_tick_callbacks = [],
           m_on_post_engine_tick_callbacks = [],
           m_on_pre_slate_draw_window_render_thread_callbacks = [],
           m_on_post_slate_draw_window_render_thread_callbacks = [],
           m_on_pre_calculate_stereo_view_offset_callbacks = [],
           m_on_post_calculate_stereo_view_offset_callbacks = [],
           m_on_pre_viewport_client_draw_callbacks = [],
           m_on_post_viewport_client_draw_callbacks = [] \<rparr>,
       lua_functions = [''test_function''],
       lua_usertypes =
         [''UEVR_PluginInitializeParam'', ''UEVR_PluginVersion'', ''UEVR_PluginFunctions'',
          ''UEVR_RendererData'', ''UEVR_SDKFunctions'', ''UEVR_SDKData'', ''UEVR_VRData'',
          ''UEVR_Vector2f'', ''UEVR_Vector3f'', ''UEVR_Vector3d'', ''UEVR_Vector4f'',
          ''UEVR_Quaternionf'', ''UEVR_Rotatorf'', ''UEVR_Rotatord'', ''UEVR_Matrix4x4f'',
          ''UEVR_Matrix4x4d'', ''UEVR_SDKCallbacks''],
       host_calls =
         [Add_callback Pre_engine_tick (Trampoline Pre_engine_tick),
          Add_callback Post_engine_tick (Trampoline Post_engine_tick),
          Add_callback Pre_slate_draw_window_render_thread
            (Trampoline Pre_slate_draw_window_render_thread),
          Add_callback Post_slate_draw_window_render_thread
            (Trampoline Post_slate_draw_window_render_thread),
          Add_callback Pre_calculate_stereo_view_offset
            (Trampoline Pre_calculate_stereo_view_offset),
          Add_callback Post_calculate_stereo_view_offset
            (Trampoline Post_calculate_stereo_view_offset),
          Add_callback Pre_viewport_client_draw (Trampoline Pre_viewport_client_draw),
          Add_callback Post_viewport_client_draw (Trampoline Post_viewport_client_draw)],
       cout = [''[LuaVR] '' @ initializing_message, ''[LuaVR] '' @ initialized_message],
       lua_calls = [],
       method_calls = [] \<rparr>"

text \<open>The same state after scripts have given the functions 1, 2 and 3 to \<^verbatim>\<open>on_pre_engine_tick\<close>.\<close>

definition example_world :: world where
  "example_world =
     example_opened\<lparr> script_context :=
       (script_context example_opened)\<lparr> m_on_pre_engine_tick_callbacks := [1, 2, 3] \<rparr>,
       method_calls := [(Pre_engine_tick, 1), (Pre_engine_tick, 2), (Pre_engine_tick, 3)] \<rparr>"

text \<open>
  A script whose handler registers another handler for the same event:
  \<^verbatim>\<open>cb.on_pre_engine_tick(function(engine, dt) cb.on_pre_engine_tick(f5) end)\<close>.
  In \<open>reentrant_environment\<close> function 10 is such a handler: whenever it is called it passes
  function 5 to \<^verbatim>\<open>on_pre_engine_tick\<close>, and returns. In \<open>reentrant_failing_environment\<close> it
  does the same and then fails with the Lua error \<^verbatim>\<open>boom\<close>. Every other function returns and
  registers nothing. In both, an invalidated iterator yields function 5.
\<close>

definition reentrant_environment :: environment where
  "reentrant_environment =
     example_environment
       \<lparr> call_function :=
           (\<lambda>tr fn args. if fn = 10 then ([(Pre_engine_tick, 5)], Returns Valid_result)
                          else ([], Returns Valid_result)),
         dangling := (\<lambda>tr i. 5) \<rparr>"

definition reentrant_failing_environment :: environment where
  "reentrant_failing_environment =
     example_environment
       \<lparr> call_function :=
           (\<lambda>tr fn args. if fn = 10
                          then ([(Pre_engine_tick, 5)], Returns (Invalid_result ''boom''))
                          else ([], Returns Valid_result)),
         dangling := (\<lambda>tr i. 5) \<rparr>"

text \<open>The state after scripts have given the functions 10 and 3 to \<^verbatim>\<open>on_pre_engine_tick\<close>.\<close>

definition reentrant_world :: world where
  "reentrant_world =
     example_opened\<lparr> script_context :=
       (script_context example_opened)\<lparr> m_on_pre_engine_tick_callbacks := [10, 3] \<rparr>,
       method_calls := [(Pre_engine_tick, 10), (Pre_engine_tick, 3)] \<rparr>"

section \<open>Theorems\<close>

subsection \<open>The matrix row accessor\<close>

text \<open>
  What the accessors do with an integer index: nil from 4 upwards, the row pointer
  below 4. The pointer is a row of the matrix for \<open>0..3\<close>, and is not for a negative index.
\<close>

lemma matrix_index_int:
  "Matrix4x4f_index lhs (Int_object i) = (if 4 \<le> sint i then Lua_nil else Row_pointer (sint i))"
  "Matrix4x4d_index lhd (Int_object i) = (if 4 \<le> sint i then Lua_nil else Row_pointer (sint i))"
  by (simp_all add: Matrix4x4f_index_def Matrix4x4d_index_def)

lemma matrix_index_in_range:
  assumes "0 \<le> sint i" and "sint i < 4"
  shows "Matrix4x4f_index lhs (Int_object i) = Row_pointer (sint i)"
    and "Matrix4x4d_index lhd (Int_object i) = Row_pointer (sint i)"
    and "row_in_bounds (sint i)"
  using assms by (simp_all add: matrix_index_int row_in_bounds_def)

lemma matrix_index_negative:
  assumes "sint i < 0"
  shows "Matrix4x4f_index lhs (Int_object i) = Row_pointer (sint i)"
    and "Matrix4x4d_index lhd (Int_object i) = Row_pointer (sint i)"
    and "\<not> row_in_bounds (sint i)"
  using assms by (simp_all add: matrix_index_int row_in_bounds_def)

text \<open>
  C8 (the code at the failing input). The claim asks that every index outside \<open>0..3\<close>
  yields nil. The accessor tests \<^verbatim>\<open>index >= 4\<close> only: for the index \<open>-1\<close> both
  accessors return the pointer \<^verbatim>\<open>&lhs.m[-1]\<close>, which is no row of the matrix.
\<close>

theorem matrix_index_negative_not_nil:
  "Matrix4x4f_index lhs (Int_object (- 1)) = Row_pointer (- 1)
   \<and> Matrix4x4d_index lhd (Int_object (- 1)) = Row_pointer (- 1)
   \<and> \<not> row_in_bounds (- 1)"
  by (simp add: Matrix4x4f_index_def Matrix4x4d_index_def row_in_bounds_def)

text \<open>
  C10. For every index object that is not an integer (\<^verbatim>\<open>is<int>()\<close> is false) both
  accessors return nil, and they do so whatever the matrix holds: the result is the
  same for any two matrices, so nothing of the matrix is read.
\<close>

theorem matrix_index_non_int_nil:
  assumes "\<not> is_int index_obj"
  shows "Matrix4x4f_index lhs index_obj = Lua_nil
         \<and> Matrix4x4d_index lhd index_obj = Lua_nil
         \<and> Matrix4x4f_index lhs' index_obj = Matrix4x4f_index lhs index_obj
         \<and> Matrix4x4d_index lhd' index_obj = Matrix4x4d_index lhd index_obj"
  using assms by (simp add: Matrix4x4f_index_def Matrix4x4d_index_def)

theorem matrix_index_non_int_nil_witness:
  "\<not> is_int (Other_object Type_string)
   \<and> Matrix4x4f_index [[1, 2, 3, 4]] (Other_object Type_string) = Lua_nil
   \<and> Matrix4x4d_index [[5, 6, 7, 8]] (Other_object Type_string) = Lua_nil"
  using matrix_index_non_int_nil [of "Other_object Type_string" "[[1, 2, 3, 4]]" "[[5, 6, 7, 8]]"]
  by simp

subsection \<open>One pass of a forwarding loop\<close>

lemma passed_to_append: "passed_to ev (xs @ ys) = passed_to ev xs @ passed_to ev ys"
  by (induction xs rule: passed_to.induct) simp_all

lemma method_fields:
  "callbacks_of ev (UEVR_SDKCallbacks_method ev' fn c) =
     (if ev' = ev then callbacks_of ev c @ [fn] else callbacks_of ev c)"
  "m_callbacks_to_remove (UEVR_SDKCallbacks_method ev' fn c) = m_callbacks_to_remove c"
  "m_plugin_initialize_param (UEVR_SDKCallbacks_method ev' fn c) = m_plugin_initialize_param c"
  by (cases ev'; cases ev; simp)+

text \<open>
  A registration touches the handler list of its event and the trace of method calls,
  and nothing else.
\<close>

lemma script_registers_fields:
  "host_calls (script_registers ev fn w) = host_calls w"
  "lua_usertypes (script_registers ev fn w) = lua_usertypes w"
  "lua_functions (script_registers ev fn w) = lua_functions w"
  "lua_calls (script_registers ev fn w) = lua_calls w"
  "cout (script_registers ev fn w) = cout w"
  "m_callbacks_to_remove (script_context (script_registers ev fn w)) =
     m_callbacks_to_remove (script_context w)"
  "m_plugin_initialize_param (script_context (script_registers ev fn w)) =
     m_plugin_initialize_param (script_context w)"
  "method_calls (script_registers ev fn w) =
     method_calls w @ (if ''UEVR_SDKCallbacks'' \<in> set (lua_usertypes w) then [(ev, fn)] else [])"
  "callbacks_of ev' (script_context (script_registers ev fn w)) =
     callbacks_of ev' (script_context w) @
     (if ''UEVR_SDKCallbacks'' \<in> set (lua_usertypes w) then passed_to ev' [(ev, fn)] else [])"
  by (simp_all add: script_registers_def method_fields)

lemma script_registers_all_fields:
  "host_calls (script_registers_all rs w) = host_calls w"
  "lua_usertypes (script_registers_all rs w) = lua_usertypes w"
  "lua_functions (script_registers_all rs w) = lua_functions w"
  "lua_calls (script_registers_all rs w) = lua_calls w"
  "cout (script_registers_all rs w) = cout w"
  "m_callbacks_to_remove (script_context (script_registers_all rs w)) =
     m_callbacks_to_remove (script_context w)"
  "m_plugin_initialize_param (script_context (script_registers_all rs w)) =
     m_plugin_initialize_param (script_context w)"
  "method_calls (script_registers_all rs w) =
     method_calls w @ (if ''UEVR_SDKCallbacks'' \<in> set (lua_usertypes w) then rs else [])"
  "callbacks_of ev' (script_context (script_registers_all rs w)) =
     callbacks_of ev' (script_context w) @
     (if ''UEVR_SDKCallbacks'' \<in> set (lua_usertypes w) then passed_to ev' rs else [])"
  by (induction rs w rule: script_registers_all.induct)
     (simp_all add: script_registers_fields)

text \<open>
  One pass through the \<^verbatim>\<open>try\<close> statement never ends by an exception. It records the call,
  carries out the registrations the called function makes, and writes at most one line.
\<close>

lemma try_catch_forward:
  "try_catch name (forward env fn args w) =
     Inr ((script_registers_all (fst (call_function env (lua_calls w) fn args))
             (w\<lparr> lua_calls := lua_calls w @ [(fn, args)] \<rparr>))
          \<lparr> cout := cout w @
              (case raised env (snd (call_function env (lua_calls w) fn args)) of
                 None \<Rightarrow> [] | Some e \<Rightarrow> [diagnostic name e]) \<rparr>)"
proof (cases "call_function env (lua_calls w) fn args")
  case (Pair registrations outcome)
  define w' where "w' = script_registers_all registrations
                      (w\<lparr> lua_calls := lua_calls w @ [(fn, args)] \<rparr>)"
  have c: "cout w' = cout w"
    by (simp add: w'_def script_registers_all_fields)
  have n: "w'\<lparr> cout := cout w \<rparr> = w'"
    using c by simp
  have f: "forward env fn args w =
     (case outcome of
        Throws e \<Rightarrow> (Inl e, w')
      | Returns result \<Rightarrow>
          (case handle_protected_result env result of
             Inl e \<Rightarrow> (Inl e, w')
           | Inr r \<Rightarrow> (Inr (), w')))"
    unfolding w'_def by (simp add: forward_def Pair Let_def)
  have "try_catch name (forward env fn args w) =
     Inr (w'\<lparr> cout := cout w @
              (case raised env outcome of None \<Rightarrow> [] | Some e \<Rightarrow> [diagnostic name e]) \<rparr>)"
  proof (cases outcome)
    case (Throws e)
    then show ?thesis
      by (cases e) (simp_all add: f log_def c)
  next
    case (Returns result)
    show ?thesis
    proof (cases result)
      case Valid_result
      with Returns show ?thesis
        by (simp add: f handle_protected_result_def n)
    next
      case Moved_from_result
      with Returns show ?thesis
        by (simp add: f handle_protected_result_def n)
    next
      case (Invalid_result message)
      show ?thesis
      proof (cases "script_default_on_error env message")
        case None
        with Returns Invalid_result show ?thesis
          by (simp add: f handle_protected_result_def n)
      next
        case (Some e)
        with Returns Invalid_result show ?thesis
          by (cases e) (simp_all add: f handle_protected_result_def log_def c)
      qed
    qed
  qed
  then show ?thesis
    by (simp add: Pair w'_def)
qed

lemma pass_fields:
  "\<exists>w'. try_catch name (forward env fn args w) = Inr w'
     \<and> host_calls w' = host_calls w
     \<and> lua_usertypes w' = lua_usertypes w
     \<and> m_callbacks_to_remove (script_context w') = m_callbacks_to_remove (script_context w)
     \<and> m_plugin_initialize_param (script_context w') = m_plugin_initialize_param (script_context w)
     \<and> lua_calls w' = lua_calls w @ [(fn, args)]
     \<and> cout w' = cout w @
          (case raised env (snd (call_function env (lua_calls w) fn args)) of
             None \<Rightarrow> [] | Some e \<Rightarrow> [diagnostic name e])
     \<and> method_calls w' = method_calls w @
          (if ''UEVR_SDKCallbacks'' \<in> set (lua_usertypes w)
           then fst (call_function env (lua_calls w) fn args) else [])
     \<and> (\<forall>ev. callbacks_of ev (script_context w') = callbacks_of ev (script_context w) @
          (if ''UEVR_SDKCallbacks'' \<in> set (lua_usertypes w)
           then passed_to ev (fst (call_function env (lua_calls w) fn args)) else []))"
  by (simp add: try_catch_forward script_registers_all_fields)

subsection \<open>One firing\<close>

text \<open>
  Whatever the called functions register and whatever the iterators yield, the loop
  makes one call per element the vector had when the loop began and returns normally. It
  makes no call to the host and leaves the removal list and \<^verbatim>\<open>m_plugin_initialize_param\<close>
  alone; the handler lists grow by the registrations made during the calls, \<open>rs\<close>.
\<close>

lemma for_each_callback_fields:
  "\<exists>w' rs. for_each_callback env ev name args visited rest w = Inr w'
     \<and> host_calls w' = host_calls w
     \<and> lua_usertypes w' = lua_usertypes w
     \<and> m_callbacks_to_remove (script_context w') = m_callbacks_to_remove (script_context w)
     \<and> m_plugin_initialize_param (script_context w') = m_plugin_initialize_param (script_context w)
     \<and> length (lua_calls w') = length (lua_calls w) + length rest
     \<and> method_calls w' = method_calls w @
          (if ''UEVR_SDKCallbacks'' \<in> set (lua_usertypes w) then rs else [])
     \<and> (\<forall>ev'. callbacks_of ev' (script_context w') = callbacks_of ev' (script_context w) @
          (if ''UEVR_SDKCallbacks'' \<in> set (lua_usertypes w) then passed_to ev' rs else []))"
proof (induction rest arbitrary: visited w)
  case Nil
  have "for_each_callback env ev name args visited [] w = Inr w
     \<and> method_calls w = method_calls w @
          (if ''UEVR_SDKCallbacks'' \<in> set (lua_usertypes w) then [] else [])
     \<and> (\<forall>ev'. callbacks_of ev' (script_context w) = callbacks_of ev' (script_context w) @
          (if ''UEVR_SDKCallbacks'' \<in> set (lua_usertypes w) then passed_to ev' [] else []))"
    by simp
  then show ?case
    by fastforce
next
  case (Cons x rest)
  define fn where "fn = (if callbacks_of ev (script_context w) = visited @ x # rest then x
                else dangling env (lua_calls w) (length visited))"
  define r1 where "r1 = fst (call_function env (lua_calls w) fn args)"
  obtain w1 where p: "try_catch name (forward env fn args w) = Inr w1"
    and h1: "host_calls w1 = host_calls w"
    and u1: "lua_usertypes w1 = lua_usertypes w"
    and m1: "m_callbacks_to_remove (script_context w1) = m_callbacks_to_remove (script_context w)"
    and p1: "m_plugin_initialize_param (script_context w1) = m_plugin_initialize_param (script_context w)"
    and l1: "lua_calls w1 = lua_calls w @ [(fn, args)]"
    and t1: "method_calls w1 = method_calls w @
          (if ''UEVR_SDKCallbacks'' \<in> set (lua_usertypes w) then r1 else [])"
    and c1: "\<And>ev'. callbacks_of ev' (script_context w1) = callbacks_of ev' (script_context w) @
          (if ''UEVR_SDKCallbacks'' \<in> set (lua_usertypes w) then passed_to ev' r1 else [])"
    using pass_fields [of name env fn args w] unfolding r1_def by blast
  obtain w2 r2 where f: "for_each_callback env ev name args (visited @ [x]) rest w1 = Inr w2"
    and h2: "host_calls w2 = host_calls w1"
    and u2: "lua_usertypes w2 = lua_usertypes w1"
    and m2: "m_callbacks_to_remove (script_context w2) = m_callbacks_to_remove (script_context w1)"
    and p2: "m_plugin_initialize_param (script_context w2) = m_plugin_initialize_param (script_context w1)"
    and l2: "length (lua_calls w2) = length (lua_calls w1) + length rest"
    and t2: "method_calls w2 = method_calls w1 @
          (if ''UEVR_SDKCallbacks'' \<in> set (lua_usertypes w1) then r2 else [])"
    and c2: "\<And>ev'. callbacks_of ev' (script_context w2) = callbacks_of ev' (script_context w1) @
          (if ''UEVR_SDKCallbacks'' \<in> set (lua_usertypes w1) then passed_to ev' r2 else [])"
    using Cons.IH [of "visited @ [x]" w1] by blast
  have "for_each_callback env ev name args visited (x # rest) w = Inr w2"
    using p f by (simp add: fn_def)
  moreover have "method_calls w2 = method_calls w @
          (if ''UEVR_SDKCallbacks'' \<in> set (lua_usertypes w) then r1 @ r2 else [])"
    using t1 t2 u1 by simp
  moreover have "\<forall>ev'. callbacks_of ev' (script_context w2) = callbacks_of ev' (script_context w) @
          (if ''UEVR_SDKCallbacks'' \<in> set (lua_usertypes w) then passed_to ev' (r1 @ r2) else [])"
    using c1 c2 u1 by (simp add: passed_to_append)
  moreover have "length (lua_calls w2) = length (lua_calls w) + length (x # rest)"
    using l1 l2 by simp
  ultimately show ?case
    using h1 h2 u1 u2 m1 m2 p1 p2 by metis
qed

text \<open>
  Where no function registers anything for event \<open>ev0\<close>, a loop leaves the handler list
  of \<open>ev0\<close> as it is.
\<close>

lemma for_each_callback_keeps:
  assumes "registers_nothing_to env ev0"
    and "for_each_callback env ev name args visited rest w = Inr w'"
  shows "callbacks_of ev0 (script_context w') = callbacks_of ev0 (script_context w)"
  using assms(2)
proof (induction rest arbitrary: visited w)
  case Nil
  then show ?case by simp
next
  case (Cons x rest)
  define fn where "fn = (if callbacks_of ev (script_context w) = visited @ x # rest then x
                else dangling env (lua_calls w) (length visited))"
  obtain w1 where p: "try_catch name (forward env fn args w) = Inr w1"
    and c1: "callbacks_of ev0 (script_context w1) = callbacks_of ev0 (script_context w) @
          (if ''UEVR_SDKCallbacks'' \<in> set (lua_usertypes w)
           then passed_to ev0 (fst (call_function env (lua_calls w) fn args)) else [])"
    using pass_fields [of name env fn args w] by blast
  from assms(1) c1 have k: "callbacks_of ev0 (script_context w1) = callbacks_of ev0 (script_context w)"
    by (simp add: registers_nothing_to_def)
  from Cons.prems p have "for_each_callback env ev name args (visited @ [x]) rest w1 = Inr w'"
    by (simp add: fn_def)
  then have "callbacks_of ev0 (script_context w') = callbacks_of ev0 (script_context w1)"
    by (rule Cons.IH)
  with k show ?case by simp
qed

text \<open>
  Where no function registers anything for the event being fired, the iterators stay
  valid: the loop calls the elements of the vector in order and writes the expected lines.
\<close>

lemma for_each_callback_valid_iterators:
  assumes "registers_nothing_to env ev"
    and "callbacks_of ev (script_context w) = visited @ rest"
  shows "\<exists>w'. for_each_callback env ev name args visited rest w = Inr w'
     \<and> lua_calls w' = lua_calls w @ map (\<lambda>fn. (fn, args)) rest
     \<and> cout w' = cout w @ expected_lines env name args (lua_calls w) rest
     \<and> callbacks_of ev (script_context w') = visited @ rest"
  using assms(2)
proof (induction rest arbitrary: visited w)
  case Nil
  then show ?case by simp
next
  case (Cons x rest)
  obtain w1 where p: "try_catch name (forward env x args w) = Inr w1"
    and l1: "lua_calls w1 = lua_calls w @ [(x, args)]"
    and o1: "cout w1 = cout w @
          (case raised env (snd (call_function env (lua_calls w) x args)) of
             None \<Rightarrow> [] | Some e \<Rightarrow> [diagnostic name e])"
    and c1: "callbacks_of ev (script_context w1) = callbacks_of ev (script_context w) @
          (if ''UEVR_SDKCallbacks'' \<in> set (lua_usertypes w)
           then passed_to ev (fst (call_function env (lua_calls w) x args)) else [])"
    using pass_fields [of name env x args w] by blast
  from assms(1) c1 Cons.prems
  have k: "callbacks_of ev (script_context w1) = (visited @ [x]) @ rest"
    by (simp add: registers_nothing_to_def)
  from Cons.IH [OF k] obtain w2
    where f: "for_each_callback env ev name args (visited @ [x]) rest w1 = Inr w2"
      and l2: "lua_calls w2 = lua_calls w1 @ map (\<lambda>fn. (fn, args)) rest"
      and o2: "cout w2 = cout w1 @ expected_lines env name args (lua_calls w1) rest"
      and c2: "callbacks_of ev (script_context w2) = (visited @ [x]) @ rest"
    by blast
  have "for_each_callback env ev name args visited (x # rest) w = Inr w2"
    using Cons.prems p f by simp
  then show ?case
    using l1 l2 o1 o2 c2 by simp
qed

lemma invoke_loop:
  "invoke env nc w =
     for_each_callback env (event_of nc) (slot_name (event_of nc)) (arguments_of nc) []
       (callbacks_of (event_of nc) (script_context w)) w"
  by (cases nc)
     (simp_all add: on_pre_engine_tick_def on_post_engine_tick_def
        on_pre_slate_draw_window_render_thread_def on_post_slate_draw_window_render_thread_def
        on_pre_calculate_stereo_view_offset_def on_post_calculate_stereo_view_offset_def
        on_pre_viewport_client_draw_def on_post_viewport_client_draw_def)

lemma invoke_fields:
  "\<exists>w' rs. invoke env nc w = Inr w'
     \<and> host_calls w' = host_calls w
     \<and> lua_usertypes w' = lua_usertypes w
     \<and> m_callbacks_to_remove (script_context w') = m_callbacks_to_remove (script_context w)
     \<and> m_plugin_initialize_param (script_context w') = m_plugin_initialize_param (script_context w)
     \<and> length (lua_calls w') =
          length (lua_calls w) + length (callbacks_of (event_of nc) (script_context w))
     \<and> method_calls w' = method_calls w @
          (if ''UEVR_SDKCallbacks'' \<in> set (lua_usertypes w) then rs else [])
     \<and> (\<forall>ev'. callbacks_of ev' (script_context w') = callbacks_of ev' (script_context w) @
          (if ''UEVR_SDKCallbacks'' \<in> set (lua_usertypes w) then passed_to ev' rs else []))"
  unfolding invoke_loop by (rule for_each_callback_fields)

lemma invoke_keeps:
  assumes "registers_nothing_to env ev0" and "invoke env nc w = Inr w'"
  shows "callbacks_of ev0 (script_context w') = callbacks_of ev0 (script_context w)"
  using assms unfolding invoke_loop by (rule for_each_callback_keeps)

lemma invoke_empty:
  assumes "callbacks_of (event_of nc) (script_context w) = []"
  shows "invoke env nc w = Inr w"
  using assms by (simp add: invoke_loop)

lemma invoke_valid_iterators:
  assumes "registers_nothing_to env (event_of nc)"
  shows "\<exists>w'. invoke env nc w = Inr w'
     \<and> lua_calls w' = lua_calls w @
          map (\<lambda>fn. (fn, arguments_of nc)) (callbacks_of (event_of nc) (script_context w))
     \<and> cout w' = cout w @
          expected_lines env (slot_name (event_of nc)) (arguments_of nc) (lua_calls w)
            (callbacks_of (event_of nc) (script_context w))
     \<and> callbacks_of (event_of nc) (script_context w') =
          callbacks_of (event_of nc) (script_context w)"
  unfolding invoke_loop
  using for_each_callback_valid_iterators [OF assms, of w "[]"
      "callbacks_of (event_of nc) (script_context w)"]
  by simp

subsection \<open>Construction and binding set-up\<close>

lemma ScriptContext_constructor_fields:
  "m_callbacks_to_remove (ScriptContext_constructor env) = []"
  "callbacks_of ev (ScriptContext_constructor env) = []"
  by (cases ev; simp add: ScriptContext_constructor_def Let_def split: option.split)+

lemma valid_constructor_iff:
  "valid (ScriptContext_constructor env) \<longleftrightarrow>
     (\<exists>h p. GetModuleHandleA env ''UEVRBackend.dll'' = Some h
            \<and> GetProcAddress env h ''g_plugin_initialize_param'' = Some p)"
  by (auto simp add: valid_def ScriptContext_constructor_def Let_def split: option.split)

lemma add_callback_fields:
  "host_calls (add_callback adder cb w) =
     (if m_plugin_initialize_param (script_context w) \<noteq> None
      then host_calls w @ [adder cb] else host_calls w)"
  "m_callbacks_to_remove (script_context (add_callback adder cb w)) =
     (if m_plugin_initialize_param (script_context w) \<noteq> None
      then m_callbacks_to_remove (script_context w) @ [cb]
      else m_callbacks_to_remove (script_context w))"
  "m_plugin_initialize_param (script_context (add_callback adder cb w)) =
     m_plugin_initialize_param (script_context w)"
  "lua_usertypes (add_callback adder cb w) = lua_usertypes w"
  "lua_functions (add_callback adder cb w) = lua_functions w"
  "lua_calls (add_callback adder cb w) = lua_calls w"
  "cout (add_callback adder cb w) = cout w"
  "method_calls (add_callback adder cb w) = method_calls w"
  by (simp_all add: add_callback_def)

lemma add_callback_callbacks_of:
  "callbacks_of ev (script_context (add_callback adder cb w)) = callbacks_of ev (script_context w)"
  by (cases ev) (simp_all add: add_callback_def)

lemma new_usertype_fields:
  "host_calls (new_usertype name w) = host_calls w"
  "script_context (new_usertype name w) = script_context w"
  "lua_usertypes (new_usertype name w) = lua_usertypes w @ [name]"
  "lua_functions (new_usertype name w) = lua_functions w"
  "lua_calls (new_usertype name w) = lua_calls w"
  "cout (new_usertype name w) = cout w"
  "method_calls (new_usertype name w) = method_calls w"
  by (simp_all add: new_usertype_def)

lemma set_function_fields:
  "host_calls (set_function name w) = host_calls w"
  "script_context (set_function name w) = script_context w"
  "lua_usertypes (set_function name w) = lua_usertypes w"
  "lua_functions (set_function name w) = lua_functions w @ [name]"
  "lua_calls (set_function name w) = lua_calls w"
  "cout (set_function name w) = cout w"
  "method_calls (set_function name w) = method_calls w"
  by (simp_all add: set_function_def)

lemma log_fields:
  "host_calls (log message w) = host_calls w"
  "script_context (log message w) = script_context w"
  "lua_usertypes (log message w) = lua_usertypes w"
  "lua_functions (log message w) = lua_functions w"
  "lua_calls (log message w) = lua_calls w"
  "method_calls (log message w) = method_calls w"
  "cout (log message w) = cout w @ [''[LuaVR] '' @ message]"
  by (simp_all add: log_def)

lemma setup_callback_bindings_valid:
  assumes "m_plugin_initialize_param (script_context w) = Some p"
  shows "\<exists>w'. setup_callback_bindings w = Inr w'
     \<and> host_calls w' = host_calls w @ trampoline_registrations
     \<and> m_callbacks_to_remove (script_context w') = m_callbacks_to_remove (script_context w) @ trampolines
     \<and> m_plugin_initialize_param (script_context w') = Some p
     \<and> (\<forall>ev. callbacks_of ev (script_context w') = callbacks_of ev (script_context w))
     \<and> lua_usertypes w' = lua_usertypes w @ [''UEVR_SDKCallbacks'']
     \<and> lua_calls w' = lua_calls w
     \<and> cout w' = cout w
     \<and> method_calls w' = method_calls w"
  using assms
  by (simp add: setup_callback_bindings_def Let_def add_callback_fields
      add_callback_callbacks_of new_usertype_fields trampolines_def
      trampoline_registrations_def)

lemma setup_bindings_valid:
  assumes "m_plugin_initialize_param (script_context w) = Some p"
  shows "\<exists>w'. setup_bindings w = Inr (1, w')
     \<and> host_calls w' = host_calls w @ trampoline_registrations
     \<and> m_callbacks_to_remove (script_context w') = m_callbacks_to_remove (script_context w) @ trampolines
     \<and> m_plugin_initialize_param (script_context w') = Some p
     \<and> (\<forall>ev. callbacks_of ev (script_context w') = callbacks_of ev (script_context w))
     \<and> ''UEVR_SDKCallbacks'' \<in> set (lua_usertypes w')
     \<and> lua_calls w' = lua_calls w
     \<and> cout w' = cout w
     \<and> method_calls w' = method_calls w"
proof -
  define w1 where "w1 =
    new_usertype ''UEVR_Matrix4x4d'' (new_usertype ''UEVR_Matrix4x4f''
    (new_usertype ''UEVR_Rotatord'' (new_usertype ''UEVR_Rotatorf''
    (new_usertype ''UEVR_Quaternionf'' (new_usertype ''UEVR_Vector4f''
    (new_usertype ''UEVR_Vector3d'' (new_usertype ''UEVR_Vector3f''
    (new_usertype ''UEVR_Vector2f'' (new_usertype ''UEVR_VRData''
    (new_usertype ''UEVR_SDKData'' (new_usertype ''UEVR_SDKFunctions''
    (new_usertype ''UEVR_RendererData'' (new_usertype ''UEVR_PluginFunctions''
    (new_usertype ''UEVR_PluginVersion'' (new_usertype ''UEVR_PluginInitializeParam''
    (set_function ''test_function'' w))))))))))))))))"
  have sb: "setup_bindings w =
     (case setup_callback_bindings w1 of Inl f \<Rightarrow> Inl f | Inr w' \<Rightarrow> Inr (1, w'))"
    by (simp add: setup_bindings_def Let_def w1_def)
  have f: "script_context w1 = script_context w" "host_calls w1 = host_calls w"
    "lua_calls w1 = lua_calls w" "cout w1 = cout w" "method_calls w1 = method_calls w"
    by (simp_all add: w1_def new_usertype_fields set_function_fields)
  from assms f have "m_plugin_initialize_param (script_context w1) = Some p"
    by simp
  from setup_callback_bindings_valid [OF this] f sb show ?thesis
    by auto
qed

text \<open>
  The entry point always returns. Without the host table it returns 0 and leaves the
  Lua state and the host untouched; with it, it returns 1 after one registration call per
  event.
\<close>

lemma luaopen_invalid:
  assumes "\<not> valid (ScriptContext_constructor env)"
  shows "luaopen_LuaVR env =
     Inr (0, \<lparr> script_context = ScriptContext_constructor env,
               lua_functions = [], lua_usertypes = [], host_calls = [],
               cout = [''[LuaVR] '' @ initializing_message,
                       ''[LuaVR] '' @ initialization_failed_message],
               lua_calls = [], method_calls = [] \<rparr>)"
  using assms by (simp add: luaopen_LuaVR_def log_def Let_def)

lemma luaopen_valid:
  assumes "valid (ScriptContext_constructor env)"
  shows "\<exists>w0. luaopen_LuaVR env = Inr (1, w0)
     \<and> host_calls w0 = trampoline_registrations
     \<and> m_callbacks_to_remove (script_context w0) = trampolines
     \<and> valid (script_context w0)
     \<and> (\<forall>ev. callbacks_of ev (script_context w0) = [])
     \<and> ''UEVR_SDKCallbacks'' \<in> set (lua_usertypes w0)
     \<and> lua_calls w0 = []
     \<and> method_calls w0 = []"
proof -
  define w where "w = log initialized_message (log initializing_message
                \<lparr> script_context = ScriptContext_constructor env,
                  lua_functions = [], lua_usertypes = [],
                  host_calls = [], cout = [], lua_calls = [], method_calls = [] \<rparr>)"
  have f: "script_context w = ScriptContext_constructor env" "host_calls w = []" "lua_calls w = []"
    "method_calls w = []"
    by (simp_all add: w_def log_fields)
  from assms obtain p where p: "m_plugin_initialize_param (script_context w) = Some p"
    by (auto simp add: valid_def f)
  have lo: "luaopen_LuaVR env = setup_bindings w"
    using assms by (simp add: luaopen_LuaVR_def Let_def w_def log_fields)
  from setup_bindings_valid [OF p] lo f show ?thesis
    by (auto simp add: valid_def ScriptContext_constructor_fields)
qed

subsection \<open>Traces of host calls, and the destructor\<close>

lemma added_callbacks_append:
  "added_callbacks (xs @ ys) = added_callbacks xs @ added_callbacks ys"
  by (induction xs rule: added_callbacks.induct) simp_all

lemma removed_callbacks_append:
  "removed_callbacks (xs @ ys) = removed_callbacks xs @ removed_callbacks ys"
  by (induction xs rule: removed_callbacks.induct) simp_all

lemma callbacks_of_map_Remove:
  "removed_callbacks (map Remove_callback cbs) = cbs"
  "added_callbacks (map Remove_callback cbs) = []"
  by (induction cbs) simp_all

lemma count_list_distinct:
  "distinct xs \<Longrightarrow> count_list xs x = (if x \<in> set xs then 1 else 0)"
  by (induction xs) auto

lemma count_list_append: "count_list (xs @ ys) x = count_list xs x + count_list ys x"
  by (induction xs) simp_all

lemma destructor_fields:
  "host_calls (ScriptContext_destructor w) =
     (if valid (script_context w)
      then host_calls w @ map Remove_callback (m_callbacks_to_remove (script_context w))
      else host_calls w)"
  "m_callbacks_to_remove (script_context (ScriptContext_destructor w)) =
     (if valid (script_context w) then [] else m_callbacks_to_remove (script_context w))"
  "m_plugin_initialize_param (script_context (ScriptContext_destructor w)) =
     m_plugin_initialize_param (script_context w)"
  by (simp_all add: ScriptContext_destructor_def valid_def)

lemma destructor_invalid: "\<not> valid (script_context w) \<Longrightarrow> ScriptContext_destructor w = w"
  by (simp add: ScriptContext_destructor_def valid_def)

lemma destructor_twice:
  "ScriptContext_destructor (ScriptContext_destructor w) = ScriptContext_destructor w"
  by (simp add: ScriptContext_destructor_def)

lemma luaopen_summary:
  "\<exists>n w0. luaopen_LuaVR env = Inr (n, w0)
     \<and> valid (script_context w0) = valid (ScriptContext_constructor env)
     \<and> m_callbacks_to_remove (script_context w0) = added_callbacks (host_calls w0)
     \<and> distinct (added_callbacks (host_calls w0))
     \<and> removed_callbacks (host_calls w0) = []
     \<and> (\<not> valid (ScriptContext_constructor env) \<longrightarrow>
           m_callbacks_to_remove (script_context w0) = [])"
proof (cases "valid (ScriptContext_constructor env)")
  case True
  from luaopen_valid [OF True] obtain w0 where "luaopen_LuaVR env = Inr (1, w0)"
    and "host_calls w0 = trampoline_registrations"
    and "m_callbacks_to_remove (script_context w0) = trampolines"
    and "valid (script_context w0)"
    by blast
  with True show ?thesis
    by (simp add: trampolines_def trampoline_registrations_def)
next
  case False
  then show ?thesis
    by (simp add: luaopen_invalid ScriptContext_constructor_fields)
qed

subsection \<open>Runs\<close>

text \<open>
  A run never fails, makes no call to the host, and leaves the removal list and
  \<^verbatim>\<open>m_plugin_initialize_param\<close> alone. Provided the usertype is there, each handler list
  grows by the functions passed to its event's method during the run, \<open>rs\<close>, whether from
  the top level of a script or from inside a function called by a firing.
\<close>

lemma step_result:
  "\<exists>w' rs. step env x w = Inr w'
     \<and> host_calls w' = host_calls w
     \<and> lua_usertypes w' = lua_usertypes w
     \<and> m_callbacks_to_remove (script_context w') = m_callbacks_to_remove (script_context w)
     \<and> m_plugin_initialize_param (script_context w') = m_plugin_initialize_param (script_context w)
     \<and> method_calls w' = method_calls w @
          (if ''UEVR_SDKCallbacks'' \<in> set (lua_usertypes w) then rs else [])
     \<and> (\<forall>ev. callbacks_of ev (script_context w') = callbacks_of ev (script_context w) @
          (if ''UEVR_SDKCallbacks'' \<in> set (lua_usertypes w) then passed_to ev rs else []))"
proof (cases x)
  case (Script_calls ev fn)
  have "method_calls (script_registers ev fn w) = method_calls w @
          (if ''UEVR_SDKCallbacks'' \<in> set (lua_usertypes w) then [(ev, fn)] else [])
     \<and> (\<forall>ev'. callbacks_of ev' (script_context (script_registers ev fn w)) =
          callbacks_of ev' (script_context w) @
          (if ''UEVR_SDKCallbacks'' \<in> set (lua_usertypes w) then passed_to ev' [(ev, fn)] else []))"
    by (simp add: script_registers_fields)
  then show ?thesis
    using Script_calls by (auto simp add: script_registers_fields)
next
  case (Host_fires nc)
  then show ?thesis
    using invoke_fields [of env nc w] by auto
qed

lemma run_result:
  "\<exists>w' rs. run env ops w = Inr w'
     \<and> host_calls w' = host_calls w
     \<and> lua_usertypes w' = lua_usertypes w
     \<and> m_callbacks_to_remove (script_context w') = m_callbacks_to_remove (script_context w)
     \<and> m_plugin_initialize_param (script_context w') = m_plugin_initialize_param (script_context w)
     \<and> method_calls w' = method_calls w @
          (if ''UEVR_SDKCallbacks'' \<in> set (lua_usertypes w) then rs else [])
     \<and> (\<forall>ev. callbacks_of ev (script_context w') = callbacks_of ev (script_context w) @
          (if ''UEVR_SDKCallbacks'' \<in> set (lua_usertypes w) then passed_to ev rs else []))"
proof (induction ops arbitrary: w)
  case Nil
  have "run env [] w = Inr w
     \<and> method_calls w = method_calls w @
          (if ''UEVR_SDKCallbacks'' \<in> set (lua_usertypes w) then [] else [])
     \<and> (\<forall>ev. callbacks_of ev (script_context w) = callbacks_of ev (script_context w) @
          (if ''UEVR_SDKCallbacks'' \<in> set (lua_usertypes w) then passed_to ev [] else []))"
    by simp
  then show ?case
    by fastforce
next
  case (Cons x xs)
  obtain w1 r1 where s: "step env x w = Inr w1"
    and h1: "host_calls w1 = host_calls w"
    and u1: "lua_usertypes w1 = lua_usertypes w"
    and m1: "m_callbacks_to_remove (script_context w1) = m_callbacks_to_remove (script_context w)"
    and p1: "m_plugin_initialize_param (script_context w1) = m_plugin_initialize_param (script_context w)"
    and t1: "method_calls w1 = method_calls w @
          (if ''UEVR_SDKCallbacks'' \<in> set (lua_usertypes w) then r1 else [])"
    and c1: "\<And>ev. callbacks_of ev (script_context w1) = callbacks_of ev (script_context w) @
          (if ''UEVR_SDKCallbacks'' \<in> set (lua_usertypes w) then passed_to ev r1 else [])"
    using step_result [of env x w] by blast
  obtain w2 r2 where s2: "run env xs w1 = Inr w2"
    and h2: "host_calls w2 = host_calls w1"
    and u2: "lua_usertypes w2 = lua_usertypes w1"
    and m2: "m_callbacks_to_remove (script_context w2) = m_callbacks_to_remove (script_context w1)"
    and p2: "m_plugin_initialize_param (script_context w2) = m_plugin_initialize_param (script_context w1)"
    and t2: "method_calls w2 = method_calls w1 @
          (if ''UEVR_SDKCallbacks'' \<in> set (lua_usertypes w1) then r2 else [])"
    and c2: "\<And>ev. callbacks_of ev (script_context w2) = callbacks_of ev (script_context w1) @
          (if ''UEVR_SDKCallbacks'' \<in> set (lua_usertypes w1) then passed_to ev r2 else [])"
    using Cons.IH [of w1] by blast
  have "run env (x # xs) w = Inr w2"
    using s s2 by simp
  moreover have "method_calls w2 = method_calls w @
          (if ''UEVR_SDKCallbacks'' \<in> set (lua_usertypes w) then r1 @ r2 else [])"
    using t1 t2 u1 by simp
  moreover have "\<forall>ev. callbacks_of ev (script_context w2) = callbacks_of ev (script_context w) @
          (if ''UEVR_SDKCallbacks'' \<in> set (lua_usertypes w) then passed_to ev (r1 @ r2) else [])"
    using c1 c2 u1 by (simp add: passed_to_append)
  ultimately show ?case
    using h1 h2 u1 u2 m1 m2 p1 p2 by metis
qed

text \<open>
  Where no function registers anything for event \<open>ev\<close> while it is called, the handler
  list of \<open>ev\<close> grows by exactly the functions that scripts registered for it from their
  top level.
\<close>

lemma run_registered:
  assumes "registers_nothing_to env ev"
  shows "\<exists>w'. run env ops w = Inr w'
     \<and> lua_usertypes w' = lua_usertypes w
     \<and> callbacks_of ev (script_context w') = callbacks_of ev (script_context w) @
          (if ''UEVR_SDKCallbacks'' \<in> set (lua_usertypes w) then registered ev ops else [])"
proof (induction ops arbitrary: w)
  case Nil
  show ?case by simp
next
  case (Cons x xs)
  obtain w1 where s: "step env x w = Inr w1" and u1: "lua_usertypes w1 = lua_usertypes w"
    using step_result [of env x w] by blast
  have c1: "callbacks_of ev (script_context w1) = callbacks_of ev (script_context w) @
          (if ''UEVR_SDKCallbacks'' \<in> set (lua_usertypes w) then registered ev [x] else [])"
  proof (cases x)
    case (Script_calls ev' fn)
    with s have "w1 = script_registers ev' fn w"
      by simp
    then show ?thesis
      using Script_calls by (simp add: script_registers_fields)
  next
    case (Host_fires nc)
    with s have "invoke env nc w = Inr w1"
      by simp
    with assms have "callbacks_of ev (script_context w1) = callbacks_of ev (script_context w)"
      by (rule invoke_keeps)
    then show ?thesis
      using Host_fires by simp
  qed
  obtain w2 where s2: "run env xs w1 = Inr w2" and u2: "lua_usertypes w2 = lua_usertypes w1"
    and c2: "callbacks_of ev (script_context w2) = callbacks_of ev (script_context w1) @
          (if ''UEVR_SDKCallbacks'' \<in> set (lua_usertypes w1) then registered ev xs else [])"
    using Cons.IH [of w1] by blast
  have reg: "registered ev (x # xs) = registered ev [x] @ registered ev xs"
    by (cases x) simp_all
  have "run env (x # xs) w = Inr w2"
    using s s2 by simp
  then show ?case
    using u1 u2 c1 c2 reg by simp
qed

lemma run_unbound:
  assumes "''UEVR_SDKCallbacks'' \<notin> set (lua_usertypes w)"
    and "\<And>ev. callbacks_of ev (script_context w) = []"
  shows "run env ops w = Inr w"
proof (induction ops)
  case Nil
  show ?case by simp
next
  case (Cons x xs)
  have "step env x w = Inr w"
    using assms by (cases x) (simp_all add: invoke_empty script_registers_def)
  then show ?case using Cons.IH by simp
qed

lemma opened_then_run:
  assumes "valid (ScriptContext_constructor env)"
  shows "\<exists>w0 w. luaopen_LuaVR env = Inr (1, w0) \<and> run env ops w0 = Inr w
     \<and> (\<forall>ev. callbacks_of ev (script_context w0) = [])
     \<and> (\<forall>ev. callbacks_of ev (script_context w) = passed_to ev (method_calls w))
     \<and> (\<forall>ev. registers_nothing_to env ev \<longrightarrow>
            callbacks_of ev (script_context w) = registered ev ops)
     \<and> host_calls w = host_calls w0
     \<and> m_callbacks_to_remove (script_context w) = m_callbacks_to_remove (script_context w0)
     \<and> valid (script_context w)
     \<and> host_calls w0 = trampoline_registrations
     \<and> m_callbacks_to_remove (script_context w0) = trampolines"
proof -
  from luaopen_valid [OF assms] obtain w0 where o: "luaopen_LuaVR env = Inr (1, w0)"
    and h0: "host_calls w0 = trampoline_registrations"
    and r0: "m_callbacks_to_remove (script_context w0) = trampolines"
    and v0: "valid (script_context w0)"
    and c0: "\<forall>ev. callbacks_of ev (script_context w0) = []"
    and u0: "''UEVR_SDKCallbacks'' \<in> set (lua_usertypes w0)"
    and t0: "method_calls w0 = []"
    by blast
  from run_result [of env ops w0] obtain w rs where r: "run env ops w0 = Inr w"
    and h: "host_calls w = host_calls w0"
    and m: "m_callbacks_to_remove (script_context w) = m_callbacks_to_remove (script_context w0)"
    and p: "m_plugin_initialize_param (script_context w) = m_plugin_initialize_param (script_context w0)"
    and t: "method_calls w = method_calls w0 @
          (if ''UEVR_SDKCallbacks'' \<in> set (lua_usertypes w0) then rs else [])"
    and c: "\<forall>ev. callbacks_of ev (script_context w) = callbacks_of ev (script_context w0) @
          (if ''UEVR_SDKCallbacks'' \<in> set (lua_usertypes w0) then passed_to ev rs else [])"
    by blast
  from c c0 u0 t t0 have "\<forall>ev. callbacks_of ev (script_context w) = passed_to ev (method_calls w)"
    by simp
  moreover have "callbacks_of ev (script_context w) = registered ev ops"
    if "registers_nothing_to env ev" for ev
    using run_registered [OF that, of ops w0] r c0 u0 by auto
  moreover from v0 p have "valid (script_context w)"
    by (simp add: valid_def)
  ultimately show ?thesis
    using o r h m h0 r0 c0 by blast
qed

lemma unopened_then_run:
  assumes "\<not> valid (ScriptContext_constructor env)"
  shows "\<exists>w0. luaopen_LuaVR env = Inr (0, w0) \<and> run env ops w0 = Inr w0
     \<and> script_context w0 = ScriptContext_constructor env
     \<and> lua_usertypes w0 = []
     \<and> host_calls w0 = []"
proof -
  define w0 where "w0 = \<lparr> script_context = ScriptContext_constructor env,
               lua_functions = [], lua_usertypes = [], host_calls = [],
               cout = [''[LuaVR] '' @ initializing_message,
                       ''[LuaVR] '' @ initialization_failed_message],
               lua_calls = [], method_calls = [] \<rparr>"
  have o: "luaopen_LuaVR env = Inr (0, w0)"
    using assms by (simp add: luaopen_invalid w0_def)
  have f: "script_context w0 = ScriptContext_constructor env" "lua_usertypes w0 = []"
    "host_calls w0 = []"
    by (simp_all add: w0_def)
  have "run env ops w0 = Inr w0"
    by (rule run_unbound) (simp_all add: f ScriptContext_constructor_fields)
  with o f show ?thesis
    by blast
qed

subsection \<open>The concrete inputs, evaluated\<close>

lemma example_constructed:
  "ScriptContext_constructor example_environment =
     \<lparr> m_callbacks_to_remove = [],
           m_plugin_initialize_param = Some 0x180004000,
           m_on_pre_engine_tick_callbacks = [],
           m_on_post_engine_tick_callbacks = [],
           m_on_pre_slate_draw_window_render_thread_callbacks = [],
           m_on_post_slate_draw_window_render_thread_callbacks = [],
           m_on_pre_calculate_stereo_view_offset_callbacks = [],
           m_on_post_calculate_stereo_view_offset_callbacks = [],
           m_on_pre_viewport_client_draw_callbacks = [],
           m_on_post_viewport_client_draw_callbacks = [] \<rparr>"
  by (simp add: ScriptContext_constructor_def example_environment_def)

lemma luaopen_example:
  "luaopen_LuaVR example_environment = Inr (1, example_opened)"
  apply (simp add: luaopen_LuaVR_def example_constructed valid_def log_def)
  apply (simp add: setup_bindings_def set_function_def new_usertype_def)
  apply (simp add: setup_callback_bindings_def)
  apply (simp add: add_callback_def new_usertype_def example_opened_def)
  done

lemma luaopen_reentrant:
  "luaopen_LuaVR reentrant_environment = Inr (1, example_opened)"
  "luaopen_LuaVR reentrant_failing_environment = Inr (1, example_opened)"
proof -
  have c: "ScriptContext_constructor reentrant_environment =
             ScriptContext_constructor example_environment"
    "ScriptContext_constructor reentrant_failing_environment =
             ScriptContext_constructor example_environment"
    by (simp_all add: ScriptContext_constructor_def reentrant_environment_def
        reentrant_failing_environment_def example_environment_def)
  have "luaopen_LuaVR reentrant_environment = luaopen_LuaVR example_environment"
    "luaopen_LuaVR reentrant_failing_environment = luaopen_LuaVR example_environment"
    by (simp_all add: luaopen_LuaVR_def c)
  then show "luaopen_LuaVR reentrant_environment = Inr (1, example_opened)"
    and "luaopen_LuaVR reentrant_failing_environment = Inr (1, example_opened)"
    by (simp_all add: luaopen_example)
qed

lemma example_registers_nothing: "registers_nothing_to example_environment ev"
  by (simp add: registers_nothing_to_def example_environment_def)

subsection \<open>Firings in which no called function registers for the fired event\<close>

lemma expected_lines_mem:
  "i < length fns \<Longrightarrow>
   raised env (snd (call_function env (tr @ map (\<lambda>fn. (fn, args)) (take i fns)) (fns ! i) args))
     = Some e \<Longrightarrow>
   diagnostic name e \<in> set (expected_lines env name args tr fns)"
proof (induction fns arbitrary: tr i)
  case Nil
  then show ?case by simp
next
  case (Cons fn fns)
  show ?case
  proof (cases i)
    case 0
    with Cons.prems show ?thesis by simp
  next
    case (Suc j)
    with Cons.prems have "j < length fns"
      and "raised env (snd (call_function env
             ((tr @ [(fn, args)]) @ map (\<lambda>fn. (fn, args)) (take j fns)) (fns ! j) args)) = Some e"
      by simp_all
    then have "diagnostic name e \<in> set (expected_lines env name args (tr @ [(fn, args)]) fns)"
      by (rule Cons.IH)
    then show ?thesis by simp
  qed
qed

lemma diagnostic_contains_name: "sublist name (diagnostic name e)"
  by (cases e) (simp_all only: diagnostic.simps sublist_appendI sublist_append_leftI)

lemma diagnostic_contains_what: "sublist what (diagnostic name (Std_exception what))"
proof -
  have "diagnostic name (Std_exception what) =
          (''[LuaVR] Exception in '' @ name @ '': '') @ what"
    by simp
  then show ?thesis
    by (simp only: sublist_append_leftI)
qed

text \<open>
  Such a firing calls every function of the slot's list exactly once, in the order of the
  list, each with the arguments the host supplied, and leaves the list as it was.
\<close>

lemma firing_without_reentry:
  assumes "registers_nothing_to env (event_of nc)"
  shows "\<exists>w'. invoke env nc w = Inr w'
     \<and> lua_calls w' = lua_calls w @
          map (\<lambda>fn. (fn, arguments_of nc)) (callbacks_of (event_of nc) (script_context w))
     \<and> callbacks_of (event_of nc) (script_context w') =
          callbacks_of (event_of nc) (script_context w)
     \<and> host_calls w' = host_calls w"
proof -
  from invoke_valid_iterators [OF assms, of w] obtain w' where i: "invoke env nc w = Inr w'"
    and "lua_calls w' = lua_calls w @
          map (\<lambda>fn. (fn, arguments_of nc)) (callbacks_of (event_of nc) (script_context w))"
    and "callbacks_of (event_of nc) (script_context w') =
          callbacks_of (event_of nc) (script_context w)"
    by blast
  moreover from i have "host_calls w' = host_calls w"
    using invoke_fields [of env nc w] by auto
  ultimately show ?thesis
    by blast
qed

text \<open>
  In such a firing a function that fails is contained: the forwarding function returns
  normally, the line for the exception is written and names the slot and the
  \<^verbatim>\<open>what()\<close> of a \<^verbatim>\<open>std::exception\<close>, every function of the list is still called, and the
  slot's list is unchanged.
\<close>

lemma handler_error_contained_without_reentry:
  assumes "registers_nothing_to env (event_of nc)"
    and "i < length (callbacks_of (event_of nc) (script_context w))"
    and "raised env
           (snd (call_function env
              (lua_calls w @ map (\<lambda>fn. (fn, arguments_of nc))
                 (take i (callbacks_of (event_of nc) (script_context w))))
              (callbacks_of (event_of nc) (script_context w) ! i) (arguments_of nc))) = Some e"
  shows "\<exists>w'. invoke env nc w = Inr w'
     \<and> diagnostic (slot_name (event_of nc)) e \<in> set (drop (length (cout w)) (cout w'))
     \<and> sublist (slot_name (event_of nc)) (diagnostic (slot_name (event_of nc)) e)
     \<and> (\<forall>what. e = Std_exception what \<longrightarrow>
            sublist what (diagnostic (slot_name (event_of nc)) e))
     \<and> lua_calls w' = lua_calls w @
          map (\<lambda>fn. (fn, arguments_of nc)) (callbacks_of (event_of nc) (script_context w))
     \<and> callbacks_of (event_of nc) (script_context w') =
          callbacks_of (event_of nc) (script_context w)"
proof -
  have "diagnostic (slot_name (event_of nc)) e
          \<in> set (expected_lines env (slot_name (event_of nc)) (arguments_of nc) (lua_calls w)
                   (callbacks_of (event_of nc) (script_context w)))"
    using assms(2,3) by (rule expected_lines_mem)
  moreover have "sublist (slot_name (event_of nc)) (diagnostic (slot_name (event_of nc)) e)"
    by (rule diagnostic_contains_name)
  moreover have "\<forall>what. e = Std_exception what \<longrightarrow>
            sublist what (diagnostic (slot_name (event_of nc)) e)"
    using diagnostic_contains_what by blast
  ultimately show ?thesis
    using invoke_valid_iterators [OF assms(1), of w] by auto
qed

text \<open>
  On a relay set up by \<open>luaopen_LuaVR\<close>, where no function registers for the fired event
  while it is called, the slot's list is the sequence of functions registered to it, and
  a firing calls them in the order of registration.
\<close>

lemma dispatch_order_without_reentry:
  assumes "valid (ScriptContext_constructor env)"
    and "registers_nothing_to env (event_of nc)"
  shows "\<exists>w0 w w'. luaopen_LuaVR env = Inr (1, w0) \<and> run env ops w0 = Inr w
     \<and> callbacks_of (event_of nc) (script_context w) = registered (event_of nc) ops
     \<and> invoke env nc w = Inr w'
     \<and> lua_calls w' = lua_calls w @
          map (\<lambda>fn. (fn, arguments_of nc)) (registered (event_of nc) ops)"
proof -
  from opened_then_run [OF assms(1), of ops] assms(2) obtain w0 w
    where "luaopen_LuaVR env = Inr (1, w0)" and "run env ops w0 = Inr w"
      and "callbacks_of (event_of nc) (script_context w) = registered (event_of nc) ops"
    by blast
  then show ?thesis
    using invoke_valid_iterators [OF assms(2), of w] by auto
qed

subsection \<open>Firings in which a called function registers for the fired event\<close>

text \<open>
  C9 (the code at the failing input). The slot of \<^verbatim>\<open>on_pre_engine_tick\<close> holds the functions
  10 and 3, and function 10, when called, passes function 5 to \<^verbatim>\<open>on_pre_engine_tick\<close>. The
  \<^verbatim>\<open>push_back\<close> happens while the loop of the forwarding function is on this very vector, so
  the second pass reads through an invalidated iterator: the firing calls 10 and then 5,
  and the registered function 3 is not called at all.
\<close>

theorem firing_with_reentrant_registration_skips_handler:
  "callbacks_of Pre_engine_tick (script_context reentrant_world) = [10, 3]
   \<and> lua_calls reentrant_world = []
   \<and> invoke reentrant_environment (Call_pre_engine_tick 1 0x3C83126F) reentrant_world =
     Inr (reentrant_world
       \<lparr> script_context :=
           (script_context reentrant_world)\<lparr> m_on_pre_engine_tick_callbacks := [10, 3, 5] \<rparr>,
         lua_calls :=
           [(10, [Arg_handle 1, Arg_float 0x3C83126F]), (5, [Arg_handle 1, Arg_float 0x3C83126F])],
         method_calls :=
           [(Pre_engine_tick, 10), (Pre_engine_tick, 3), (Pre_engine_tick, 5)] \<rparr>)"
  apply (simp add: on_pre_engine_tick_def reentrant_world_def example_opened_def)
  apply (simp add: try_catch_forward reentrant_environment_def example_environment_def)
  apply (simp add: script_registers_def)
  done

text \<open>
  C1 (the code at the failing input). As before, but function 10 fails with a Lua error
  after it has registered function 5. The error is caught and its line is written, but
  the handler after the failing one, function 3, is not called in this firing, and the
  slot's list is no longer what it was.
\<close>

theorem failing_reentrant_handler_stops_sibling:
  "callbacks_of Pre_engine_tick (script_context reentrant_world) = [10, 3]
   \<and> lua_calls reentrant_world = []
   \<and> invoke reentrant_failing_environment (Call_pre_engine_tick 1 0x3C83126F) reentrant_world =
     Inr (reentrant_world
       \<lparr> script_context :=
           (script_context reentrant_world)\<lparr> m_on_pre_engine_tick_callbacks := [10, 3, 5] \<rparr>,
         cout := cout reentrant_world @
           [''[LuaVR] Exception in on_pre_engine_tick: sol: runtime error: boom''],
         lua_calls :=
           [(10, [Arg_handle 1, Arg_float 0x3C83126F]), (5, [Arg_handle 1, Arg_float 0x3C83126F])],
         method_calls :=
           [(Pre_engine_tick, 10), (Pre_engine_tick, 3), (Pre_engine_tick, 5)] \<rparr>)"
  apply (simp add: on_pre_engine_tick_def reentrant_world_def example_opened_def)
  apply (simp add: try_catch_forward reentrant_failing_environment_def example_environment_def)
  apply (simp add: script_registers_def)
  done

text \<open>
  C5 (the code at the failing input). A whole run: the module is opened, a script registers
  the functions 10 and 3 for \<^verbatim>\<open>on_pre_engine_tick\<close>, and the host fires the event. Function
  10 registers function 5 during the firing. The functions registered are 10, 3 and 5, in
  this order; the firing calls 10 and 5.
\<close>

theorem run_with_reentrant_registration_breaks_order:
  "luaopen_LuaVR reentrant_environment = Inr (1, example_opened)
   \<and> run reentrant_environment
       [Script_calls Pre_engine_tick 10, Script_calls Pre_engine_tick 3,
        Host_fires (Call_pre_engine_tick 1 0x3C83126F)] example_opened =
     Inr (example_opened
       \<lparr> script_context :=
           (script_context example_opened)\<lparr> m_on_pre_engine_tick_callbacks := [10, 3, 5] \<rparr>,
         lua_calls :=
           [(10, [Arg_handle 1, Arg_float 0x3C83126F]), (5, [Arg_handle 1, Arg_float 0x3C83126F])],
         method_calls :=
           [(Pre_engine_tick, 10), (Pre_engine_tick, 3), (Pre_engine_tick, 5)] \<rparr>)"
  apply (simp add: luaopen_reentrant)
  apply (simp add: script_registers_def on_pre_engine_tick_def example_opened_def)
  apply (simp add: try_catch_forward reentrant_environment_def example_environment_def)
  apply (simp add: script_registers_def)
  done

subsection \<open>Registration of the forwarding functions with the host\<close>

text \<open>
  C4. Over the whole life of a relay (\<open>luaopen_LuaVR\<close>, any sequence of script
  registrations and host firings, the destructor), whenever a slot holds \<open>N \<ge> 1\<close>
  handlers the host has received exactly one registration call for that slot's
  forwarding function. On a valid relay this holds for every number of handlers; the
  handler list is the sequence of functions passed to the slot's method, which is the
  sequence registered by the script calls of the run wherever no function registers for
  the slot while it is being called.
\<close>

theorem one_host_registration_per_slot:
  "\<exists>n w0 w. luaopen_LuaVR env = Inr (n, w0) \<and> run env ops w0 = Inr w
     \<and> (1 \<le> length (callbacks_of ev (script_context w)) \<longrightarrow>
           count_list (added_callbacks (host_calls (ScriptContext_destructor w))) (Trampoline ev) = 1
           \<and> count_list (host_calls (ScriptContext_destructor w))
                (Add_callback ev (Trampoline ev)) = 1)
     \<and> (valid (ScriptContext_constructor env) \<longrightarrow>
           callbacks_of ev (script_context w) = passed_to ev (method_calls w)
           \<and> (registers_nothing_to env ev \<longrightarrow>
                 callbacks_of ev (script_context w) = registered ev ops)
           \<and> count_list (added_callbacks (host_calls (ScriptContext_destructor w))) (Trampoline ev) = 1
           \<and> count_list (host_calls (ScriptContext_destructor w))
                (Add_callback ev (Trampoline ev)) = 1)"
proof (cases "valid (ScriptContext_constructor env)")
  case True
  from opened_then_run [OF True, of ops] obtain w0 w
    where o: "luaopen_LuaVR env = Inr (1, w0)" and r: "run env ops w0 = Inr w"
      and c: "\<forall>ev. callbacks_of ev (script_context w) = passed_to ev (method_calls w)"
      and q: "\<forall>ev. registers_nothing_to env ev \<longrightarrow>
            callbacks_of ev (script_context w) = registered ev ops"
      and h: "host_calls w = host_calls w0"
      and m: "m_callbacks_to_remove (script_context w) = m_callbacks_to_remove (script_context w0)"
      and v: "valid (script_context w)"
      and h0: "host_calls w0 = trampoline_registrations"
      and r0: "m_callbacks_to_remove (script_context w0) = trampolines"
    by blast
  have "count_list (added_callbacks (host_calls (ScriptContext_destructor w))) (Trampoline ev) = 1"
    by (cases ev) (simp_all add: destructor_fields v h m h0 r0 added_callbacks_append
        callbacks_of_map_Remove trampolines_def trampoline_registrations_def)
  moreover have "count_list (host_calls (ScriptContext_destructor w)) (Add_callback ev (Trampoline ev)) = 1"
    by (cases ev) (simp_all add: destructor_fields v h m h0 r0 count_list_append
        trampolines_def trampoline_registrations_def)
  ultimately show ?thesis
    using o r c q by blast
next
  case False
  from unopened_then_run [OF False, of ops] obtain w0
    where o: "luaopen_LuaVR env = Inr (0, w0)" and r: "run env ops w0 = Inr w0"
      and s: "script_context w0 = ScriptContext_constructor env"
    by blast
  have "callbacks_of ev (script_context w0) = []"
    by (simp add: s ScriptContext_constructor_fields)
  with o r False show ?thesis
    by auto
qed

theorem one_host_registration_per_slot_witness:
  "\<exists>n w0 w. luaopen_LuaVR example_environment = Inr (n, w0)
        \<and> run example_environment
             [Script_calls Post_viewport_client_draw 1, Script_calls Post_viewport_client_draw 2,
              Script_calls Post_viewport_client_draw 3] w0 = Inr w
        \<and> valid (ScriptContext_constructor example_environment)
        \<and> registers_nothing_to example_environment Post_viewport_client_draw
        \<and> callbacks_of Post_viewport_client_draw (script_context w) = [1, 2, 3]
        \<and> 1 \<le> length (callbacks_of Post_viewport_client_draw (script_context w))
        \<and> count_list (added_callbacks (host_calls (ScriptContext_destructor w)))
             (Trampoline Post_viewport_client_draw) = 1"
proof -
  have v: "valid (ScriptContext_constructor example_environment)"
    by (simp add: valid_constructor_iff example_environment_def)
  have q: "registers_nothing_to example_environment Post_viewport_client_draw"
    by (rule example_registers_nothing)
  from one_host_registration_per_slot [of example_environment
      "[Script_calls Post_viewport_client_draw 1, Script_calls Post_viewport_client_draw 2,
              Script_calls Post_viewport_client_draw 3]" Post_viewport_client_draw] v q
  obtain n w0 w where o: "luaopen_LuaVR example_environment = Inr (n, w0)"
    and r: "run example_environment
             [Script_calls Post_viewport_client_draw 1, Script_calls Post_viewport_client_draw 2,
              Script_calls Post_viewport_client_draw 3] w0 = Inr w"
    and c: "callbacks_of Post_viewport_client_draw (script_context w) =
              registered Post_viewport_client_draw
                [Script_calls Post_viewport_client_draw 1, Script_calls Post_viewport_client_draw 2,
                 Script_calls Post_viewport_client_draw 3]"
    and a: "count_list (added_callbacks (host_calls (ScriptContext_destructor w)))
             (Trampoline Post_viewport_client_draw) = 1"
    by blast
  from c have c': "callbacks_of Post_viewport_client_draw (script_context w) = [1, 2, 3]"
    by simp
  then have "1 \<le> length (callbacks_of Post_viewport_client_draw (script_context w))"
    by simp
  with o r v q c' a show ?thesis
    by blast
qed

text \<open>
  C6 (the claim fails). In \<open>example_environment\<close>, \<open>luaopen_LuaVR\<close> has already handed the
  forwarding function of \<^verbatim>\<open>on_pre_engine_tick\<close> to the host, and recorded it for removal,
  while the slot's handler list is still empty: registration with the host does not wait
  for the first handler.
\<close>

theorem trampolines_registered_before_any_handler:
  "luaopen_LuaVR example_environment = Inr (1, example_opened)
   \<and> m_on_pre_engine_tick_callbacks (script_context example_opened) = []
   \<and> Add_callback Pre_engine_tick (Trampoline Pre_engine_tick) \<in> set (host_calls example_opened)
   \<and> Trampoline Pre_engine_tick \<in> set (m_callbacks_to_remove (script_context example_opened))"
  by (simp add: luaopen_example) (simp add: example_opened_def)

text \<open>
  C6, as amended. On a valid relay every slot's forwarding function is registered with
  the host, and recorded in the removal list, exactly once by \<open>luaopen_LuaVR\<close>, while the
  slot's handler list is empty; script registrations and firings, the first registration
  included, make no host call and leave the removal list unchanged.
\<close>

theorem trampolines_registered_at_setup:
  assumes "valid (ScriptContext_constructor env)"
  shows "\<exists>w0. luaopen_LuaVR env = Inr (1, w0)
     \<and> callbacks_of ev (script_context w0) = []
     \<and> count_list (host_calls w0) (Add_callback ev (Trampoline ev)) = 1
     \<and> count_list (m_callbacks_to_remove (script_context w0)) (Trampoline ev) = 1
     \<and> (\<exists>w. run env ops w0 = Inr w
           \<and> host_calls w = host_calls w0
           \<and> m_callbacks_to_remove (script_context w) = m_callbacks_to_remove (script_context w0))"
proof -
  from opened_then_run [OF assms, of ops] obtain w0 w
    where o: "luaopen_LuaVR env = Inr (1, w0)" and r: "run env ops w0 = Inr w"
      and c0: "\<forall>ev. callbacks_of ev (script_context w0) = []"
      and h: "host_calls w = host_calls w0"
      and m: "m_callbacks_to_remove (script_context w) = m_callbacks_to_remove (script_context w0)"
      and h0: "host_calls w0 = trampoline_registrations"
      and r0: "m_callbacks_to_remove (script_context w0) = trampolines"
    by blast
  have "count_list (host_calls w0) (Add_callback ev (Trampoline ev)) = 1"
    by (cases ev) (simp_all add: h0 trampoline_registrations_def)
  moreover have "count_list (m_callbacks_to_remove (script_context w0)) (Trampoline ev) = 1"
    by (cases ev) (simp_all add: r0 trampolines_def)
  ultimately show ?thesis
    using o r c0 h m by blast
qed

theorem trampolines_registered_at_setup_witness:
  "valid (ScriptContext_constructor example_environment)
   \<and> (\<exists>w0. luaopen_LuaVR example_environment = Inr (1, w0)
        \<and> callbacks_of Pre_engine_tick (script_context w0) = []
        \<and> count_list (host_calls w0) (Add_callback Pre_engine_tick (Trampoline Pre_engine_tick)) = 1
        \<and> (\<exists>w. run example_environment [Script_calls Pre_engine_tick 1] w0 = Inr w
              \<and> host_calls w = host_calls w0))"
proof -
  have v: "valid (ScriptContext_constructor example_environment)"
    by (simp add: valid_constructor_iff example_environment_def)
  from trampolines_registered_at_setup [OF v, of Pre_engine_tick "[Script_calls Pre_engine_tick 1]"] v
  show ?thesis
    by blast
qed

subsection \<open>Teardown\<close>

text \<open>
  C2. For every relay set up by \<open>luaopen_LuaVR\<close> and every sequence of script
  registrations and host firings, no removal call is made before teardown, and the
  destructor's removal calls are exactly the addresses handed to the host's registration
  functions: each address that was added is removed exactly once, and an address that
  was never added is never removed.
\<close>

theorem teardown_removes_exactly_what_was_added:
  "\<exists>n w0 w. luaopen_LuaVR env = Inr (n, w0) \<and> run env ops w0 = Inr w
     \<and> removed_callbacks (host_calls w) = []
     \<and> removed_callbacks (host_calls (ScriptContext_destructor w)) = added_callbacks (host_calls w)
     \<and> added_callbacks (host_calls (ScriptContext_destructor w)) = added_callbacks (host_calls w)
     \<and> (\<forall>cb. count_list (removed_callbacks (host_calls (ScriptContext_destructor w))) cb =
               (if cb \<in> set (added_callbacks (host_calls w)) then 1 else 0))"
proof -
  from luaopen_summary [of env] obtain n w0 where o: "luaopen_LuaVR env = Inr (n, w0)"
    and v0: "valid (script_context w0) = valid (ScriptContext_constructor env)"
    and m0: "m_callbacks_to_remove (script_context w0) = added_callbacks (host_calls w0)"
    and d0: "distinct (added_callbacks (host_calls w0))"
    and r0: "removed_callbacks (host_calls w0) = []"
    and e0: "\<not> valid (ScriptContext_constructor env) \<longrightarrow>
           m_callbacks_to_remove (script_context w0) = []"
    by blast
  from run_result [of env ops w0] obtain w where r: "run env ops w0 = Inr w"
    and h: "host_calls w = host_calls w0"
    and m: "m_callbacks_to_remove (script_context w) = m_callbacks_to_remove (script_context w0)"
    and p: "m_plugin_initialize_param (script_context w) = m_plugin_initialize_param (script_context w0)"
    by blast
  have e: "m_callbacks_to_remove (script_context w) = []" if "\<not> valid (script_context w)"
  proof -
    from that p have "\<not> valid (ScriptContext_constructor env)"
      using v0 by (simp add: valid_def)
    with e0 m show ?thesis
      by simp
  qed
  have rm: "removed_callbacks (host_calls (ScriptContext_destructor w)) = added_callbacks (host_calls w)"
    using e m m0 h r0
    by (simp add: destructor_fields removed_callbacks_append callbacks_of_map_Remove)
  have ad: "added_callbacks (host_calls (ScriptContext_destructor w)) = added_callbacks (host_calls w)"
    by (simp add: destructor_fields added_callbacks_append callbacks_of_map_Remove)
  have "\<forall>cb. count_list (removed_callbacks (host_calls (ScriptContext_destructor w))) cb =
               (if cb \<in> set (added_callbacks (host_calls w)) then 1 else 0)"
    using d0 h by (simp add: rm count_list_distinct)
  with o r rm ad r0 h show ?thesis
    by auto
qed

theorem teardown_removes_exactly_what_was_added_witness:
  "\<exists>n w0 w. luaopen_LuaVR example_environment = Inr (n, w0)
     \<and> run example_environment
          [Script_calls Pre_engine_tick 1, Host_fires (Call_pre_engine_tick 1 0x3C83126F)] w0 = Inr w
     \<and> removed_callbacks (host_calls (ScriptContext_destructor w)) = added_callbacks (host_calls w)
     \<and> count_list (removed_callbacks (host_calls (ScriptContext_destructor w)))
          (Trampoline Pre_engine_tick) = 1"
proof -
  from teardown_removes_exactly_what_was_added [of example_environment
      "[Script_calls Pre_engine_tick 1, Host_fires (Call_pre_engine_tick 1 0x3C83126F)]"]
  obtain n w0 w where o: "luaopen_LuaVR example_environment = Inr (n, w0)"
    and r: "run example_environment
          [Script_calls Pre_engine_tick 1, Host_fires (Call_pre_engine_tick 1 0x3C83126F)] w0 = Inr w"
    and rm: "removed_callbacks (host_calls (ScriptContext_destructor w)) = added_callbacks (host_calls w)"
    and c: "\<forall>cb. count_list (removed_callbacks (host_calls (ScriptContext_destructor w))) cb =
               (if cb \<in> set (added_callbacks (host_calls w)) then 1 else 0)"
    by blast
  from o have w0: "w0 = example_opened"
    by (simp add: luaopen_example)
  from r have "host_calls w = host_calls example_opened"
    using run_result [of example_environment
      "[Script_calls Pre_engine_tick 1, Host_fires (Call_pre_engine_tick 1 0x3C83126F)]" w0] w0
    by auto
  then have "Trampoline Pre_engine_tick \<in> set (added_callbacks (host_calls w))"
    by (simp add: example_opened_def)
  with c have "count_list (removed_callbacks (host_calls (ScriptContext_destructor w)))
          (Trampoline Pre_engine_tick) = 1"
    by simp
  with o r rm show ?thesis
    by blast
qed

text \<open>
  C3. If the constructor does not find the host table (the module is not loaded, or it
  does not export the symbol), then \<open>valid\<close> is false; the entry point returns 0 with no
  usertype bound; \<open>add_callback\<close> and a script's registration call leave the state as it
  is; and no call to the host is made, by set-up, by any run, or by the destructor.
\<close>

theorem absent_host_table_gives_inert_relay:
  assumes "GetModuleHandleA env ''UEVRBackend.dll'' = None
           \<or> (\<exists>h. GetModuleHandleA env ''UEVRBackend.dll'' = Some h
                  \<and> GetProcAddress env h ''g_plugin_initialize_param'' = None)"
  shows "\<not> valid (ScriptContext_constructor env)
     \<and> (\<exists>w0. luaopen_LuaVR env = Inr (0, w0)
           \<and> script_context w0 = ScriptContext_constructor env
           \<and> host_calls w0 = []
           \<and> add_callback adder cb w0 = w0
           \<and> step env (Script_calls ev fn) w0 = Inr w0
           \<and> run env ops w0 = Inr w0
           \<and> host_calls (ScriptContext_destructor w0) = [])"
proof -
  from assms have nv: "\<not> valid (ScriptContext_constructor env)"
    by (auto simp add: valid_constructor_iff)
  from unopened_then_run [OF nv, of ops] obtain w0
    where o: "luaopen_LuaVR env = Inr (0, w0)" and r: "run env ops w0 = Inr w0"
      and f: "script_context w0 = ScriptContext_constructor env" "lua_usertypes w0 = []"
        "host_calls w0 = []"
    by blast
  have a: "add_callback adder cb w0 = w0"
    using nv f by (simp add: add_callback_def valid_def)
  have s: "step env (Script_calls ev fn) w0 = Inr w0"
    using f by (simp add: script_registers_def)
  have d: "host_calls (ScriptContext_destructor w0) = []"
    using nv f by (simp add: destructor_fields)
  from nv o f a s r d show ?thesis
    by blast
qed

theorem absent_host_table_gives_inert_relay_witness:
  "(GetModuleHandleA example_environment_without_host ''UEVRBackend.dll'' = None
     \<or> (\<exists>h. GetModuleHandleA example_environment_without_host ''UEVRBackend.dll'' = Some h
            \<and> GetProcAddress example_environment_without_host h ''g_plugin_initialize_param'' = None))
   \<and> \<not> valid (ScriptContext_constructor example_environment_without_host)
   \<and> (\<exists>w0. luaopen_LuaVR example_environment_without_host = Inr (0, w0)
         \<and> host_calls w0 = []
         \<and> add_callback (Add_callback Pre_engine_tick) (Trampoline Pre_engine_tick) w0 = w0
         \<and> run example_environment_without_host
              [Script_calls Pre_engine_tick 1, Host_fires (Call_pre_engine_tick 1 0x3C83126F)] w0
            = Inr w0
         \<and> host_calls (ScriptContext_destructor w0) = [])"
proof -
  have h: "GetModuleHandleA example_environment_without_host ''UEVRBackend.dll'' = None
     \<or> (\<exists>h. GetModuleHandleA example_environment_without_host ''UEVRBackend.dll'' = Some h
            \<and> GetProcAddress example_environment_without_host h ''g_plugin_initialize_param'' = None)"
    by (simp add: example_environment_without_host_def)
  from absent_host_table_gives_inert_relay [OF h, of "Add_callback Pre_engine_tick"
      "Trampoline Pre_engine_tick" Pre_engine_tick 1
      "[Script_calls Pre_engine_tick 1, Host_fires (Call_pre_engine_tick 1 0x3C83126F)]"] h
  show ?thesis
    by blast
qed

text \<open>
  C7. The destructor of a context that is not valid changes nothing and makes no removal
  call. The destructor of a valid context leaves the removal list empty, and running the
  destructor a second time changes nothing further, so it makes no removal call. For
  every relay set up by \<open>luaopen_LuaVR\<close>, valid or not, the removal list is empty after
  the destructor.
\<close>

theorem teardown_safe_and_idempotent:
  "(\<not> valid (script_context w) \<longrightarrow>
       ScriptContext_destructor w = w
       \<and> removed_callbacks (host_calls (ScriptContext_destructor w)) = removed_callbacks (host_calls w))
   \<and> (valid (script_context w) \<longrightarrow>
       m_callbacks_to_remove (script_context (ScriptContext_destructor w)) = [])
   \<and> ScriptContext_destructor (ScriptContext_destructor w) = ScriptContext_destructor w
   \<and> (\<exists>n w0 w1. luaopen_LuaVR env = Inr (n, w0) \<and> run env ops w0 = Inr w1
         \<and> m_callbacks_to_remove (script_context (ScriptContext_destructor w1)) = []
         \<and> (\<not> valid (ScriptContext_constructor env) \<longrightarrow>
               \<not> valid (script_context w1)
               \<and> removed_callbacks (host_calls (ScriptContext_destructor w1)) = []))"
proof -
  from luaopen_summary [of env] obtain n w0 where o: "luaopen_LuaVR env = Inr (n, w0)"
    and v0: "valid (script_context w0) = valid (ScriptContext_constructor env)"
    and m0: "m_callbacks_to_remove (script_context w0) = added_callbacks (host_calls w0)"
    and r0: "removed_callbacks (host_calls w0) = []"
    and e0: "\<not> valid (ScriptContext_constructor env) \<longrightarrow>
           m_callbacks_to_remove (script_context w0) = []"
    by blast
  from run_result [of env ops w0] obtain w1 where r: "run env ops w0 = Inr w1"
    and h: "host_calls w1 = host_calls w0"
    and m: "m_callbacks_to_remove (script_context w1) = m_callbacks_to_remove (script_context w0)"
    and p: "m_plugin_initialize_param (script_context w1) = m_plugin_initialize_param (script_context w0)"
    by blast
  have v1: "valid (script_context w1) = valid (ScriptContext_constructor env)"
    using p v0 by (simp add: valid_def)
  have e: "m_callbacks_to_remove (script_context w1) = []" if "\<not> valid (script_context w1)"
    using that v1 e0 m by simp
  have 1: "m_callbacks_to_remove (script_context (ScriptContext_destructor w1)) = []"
    using e by (simp add: destructor_fields)
  have 2: "\<not> valid (ScriptContext_constructor env) \<longrightarrow>
               \<not> valid (script_context w1)
               \<and> removed_callbacks (host_calls (ScriptContext_destructor w1)) = []"
    using v1 h r0 by (simp add: destructor_fields)
  from o r 1 2 have "\<exists>n w0 w1. luaopen_LuaVR env = Inr (n, w0) \<and> run env ops w0 = Inr w1
         \<and> m_callbacks_to_remove (script_context (ScriptContext_destructor w1)) = []
         \<and> (\<not> valid (ScriptContext_constructor env) \<longrightarrow>
               \<not> valid (script_context w1)
               \<and> removed_callbacks (host_calls (ScriptContext_destructor w1)) = [])"
    by blast
  then show ?thesis
    by (simp add: destructor_invalid destructor_twice destructor_fields)
qed

theorem teardown_safe_and_idempotent_witness:
  "valid (script_context example_world)
   \<and> m_callbacks_to_remove (script_context (ScriptContext_destructor example_world)) = []
   \<and> ScriptContext_destructor (ScriptContext_destructor example_world)
       = ScriptContext_destructor example_world
   \<and> \<not> valid (ScriptContext_constructor example_environment_without_host)
   \<and> (\<exists>n w0 w1. luaopen_LuaVR example_environment_without_host = Inr (n, w0)
         \<and> run example_environment_without_host [Script_calls Pre_engine_tick 1] w0 = Inr w1
         \<and> \<not> valid (script_context w1)
         \<and> ScriptContext_destructor w1 = w1
         \<and> removed_callbacks (host_calls (ScriptContext_destructor w1)) = [])"
proof -
  have v: "valid (script_context example_world)"
    by (simp add: valid_def example_world_def example_opened_def)
  have nv: "\<not> valid (ScriptContext_constructor example_environment_without_host)"
    by (simp add: valid_constructor_iff example_environment_without_host_def)
  from teardown_safe_and_idempotent [of example_world example_environment_without_host
      "[Script_calls Pre_engine_tick 1]"] nv
  obtain n w0 w1 where "luaopen_LuaVR example_environment_without_host = Inr (n, w0)"
    and "run example_environment_without_host [Script_calls Pre_engine_tick 1] w0 = Inr w1"
    and "\<not> valid (script_context w1)"
    and "removed_callbacks (host_calls (ScriptContext_destructor w1)) = []"
    by blast
  moreover from this have "ScriptContext_destructor w1 = w1"
    using teardown_safe_and_idempotent [of w1 example_environment_without_host "[]"] by blast
  ultimately show ?thesis
    using teardown_safe_and_idempotent [of example_world example_environment_without_host "[]"] v nv
    by blast
qed

end
